theory Spec2Isabelle
  imports Main "HOL-Library.Sublist"
begin

section \<open>Conventions of the embedding\<close>

text \<open>
  The theory embeds the orchestration pipeline of the Python sources
  (\<^verbatim>\<open>agent/orchestrator_agent.py\<close>, \<^verbatim>\<open>plugins/*.py\<close>, \<^verbatim>\<open>models/*.py\<close>).

  \<^item> A Python function that may raise returns \<open>exn + 'a\<close>: \<open>Inl e\<close> is the raised
    exception, \<open>Inr v\<close> the returned value. A \<^verbatim>\<open>try/except\<close> is a case distinction
    on that sum. Values of \<open>exn\<close> stand for instances of \<^verbatim>\<open>Exception\<close>; signals that
    derive from \<^verbatim>\<open>BaseException\<close> only (task cancellation) are outside the model.
  \<^item> Private methods lose their leading underscore (\<^verbatim>\<open>_execute_agents\<close> is
    \<open>execute_agents\<close>); \<^verbatim>\<open>IntentPlugin.analyze_intent\<close>, which would then clash with
    the orchestrator's \<^verbatim>\<open>_analyze_intent\<close>, is \<open>plugin_analyze_intent\<close>.
  \<^item> A \<open>char\<close> stands for one code point below 256 of a Python \<^verbatim>\<open>str\<close>.
  \<^item> Logging calls have no effect on results and are left out, except where
    formatting a log line can itself raise.
  \<^item> The libraries the sources call (\<^verbatim>\<open>json\<close>, Semantic Kernel, the Copilot client)
    are parameters of the model: \<open>json_loads\<close>, the completion service
    \<open>invoke_prompt\<close>, the connector calls of the record \<open>copilot\<close>.
\<close>

section \<open>Strings\<close>

text \<open>\<^verbatim>\<open>str.isspace\<close> on one character, for code points below 256.\<close>

definition is_space :: "char \<Rightarrow> bool" where
  "is_space c = (c \<in> set [CHR 0x09, CHR 0x0A, CHR 0x0B, CHR 0x0C, CHR 0x0D, CHR 0x1C,
     CHR 0x1D, CHR 0x1E, CHR 0x1F, CHR 0x20, CHR 0x85, CHR 0xA0])"

definition lstrip :: "string \<Rightarrow> string" where
  "lstrip s = dropWhile is_space s"

definition rstrip :: "string \<Rightarrow> string" where
  "rstrip s = rev (dropWhile is_space (rev s))"

text \<open>\<^verbatim>\<open>s.strip()\<close>\<close>

definition strip :: "string \<Rightarrow> string" where
  "strip s = rstrip (lstrip s)"

text \<open>\<^verbatim>\<open>s.lower()\<close>: only the ASCII letters change among the code points that can
  take part in a match with the ASCII patterns the sources look for.\<close>

definition lower_char :: "char \<Rightarrow> char" where
  "lower_char c =
     (case map_of (zip ''ABCDEFGHIJKLMNOPQRSTUVWXYZ'' ''abcdefghijklmnopqrstuvwxyz'') c of
        Some d \<Rightarrow> d
      | None \<Rightarrow> c)"

definition lower :: "string \<Rightarrow> string" where
  "lower s = map lower_char s"

text \<open>\<^verbatim>\<open>pat in s\<close> on strings.\<close>

fun contains :: "string \<Rightarrow> string \<Rightarrow> bool" where
  "contains pat [] = (pat = [])"
| "contains pat (c # cs) = (prefix pat (c # cs) \<or> contains pat cs)"

text \<open>The text before and after the first occurrence of \<open>pat\<close> in a string.\<close>

fun split_on :: "string \<Rightarrow> string \<Rightarrow> (string \<times> string) option" where
  "split_on pat [] = (if pat = [] then Some ([], []) else None)"
| "split_on pat (c # cs) =
     (if prefix pat (c # cs) then Some ([], drop (length pat) (c # cs))
      else map_option (\<lambda>(u, v). (c # u, v)) (split_on pat cs))"

section \<open>Exceptions\<close>

datatype exception_class =
  AttributeError | KeyError | TypeError | ValueError | JSONDecodeError
  | RuntimeError | TimeoutError | OtherError

text \<open>An exception: its class and \<^verbatim>\<open>str(e)\<close>.\<close>

datatype exn = Exn exception_class string

fun exn_class :: "exn \<Rightarrow> exception_class" where
  "exn_class (Exn c m) = c"

fun message :: "exn \<Rightarrow> string" where
  "message (Exn c m) = m"

text \<open>\<^verbatim>\<open>isinstance(e, c)\<close>: \<^verbatim>\<open>json.JSONDecodeError\<close> derives from \<^verbatim>\<open>ValueError\<close>.\<close>

definition isinstance :: "exn \<Rightarrow> exception_class \<Rightarrow> bool" where
  "isinstance e c = (exn_class e = c \<or> (exn_class e = JSONDecodeError \<and> c = ValueError))"

section \<open>Decoded JSON\<close>

text \<open>The values \<^verbatim>\<open>json.loads\<close> returns: \<^verbatim>\<open>None\<close>, \<^verbatim>\<open>bool\<close>, \<^verbatim>\<open>int\<close>, \<^verbatim>\<open>float\<close>
  (kept as its literal), \<^verbatim>\<open>str\<close>, \<^verbatim>\<open>list\<close> and \<^verbatim>\<open>dict\<close> (its items, keys distinct).\<close>

datatype json =
  JNone | JBool bool | JInt int | JFloat string | JStr string
  | JList "json list" | JDict "(string \<times> json) list"

text \<open>\<^verbatim>\<open>item[key]\<close> for a string key: only a dict can be subscripted by one.\<close>

definition subscript :: "json \<Rightarrow> string \<Rightarrow> exn + json" where
  "subscript item key =
     (case item of
        JDict kv \<Rightarrow> (case map_of kv key of Some v \<Rightarrow> Inr v | None \<Rightarrow> Inl (Exn KeyError key))
      | _ \<Rightarrow> Inl (Exn TypeError ''indices must be integers or the object is not subscriptable''))"

text \<open>\<^verbatim>\<open>item.get(key)\<close>\<close>

definition dict_get :: "json \<Rightarrow> string \<Rightarrow> exn + json" where
  "dict_get item key =
     (case item of
        JDict kv \<Rightarrow> (case map_of kv key of Some v \<Rightarrow> Inr v | None \<Rightarrow> Inr JNone)
      | _ \<Rightarrow> Inl (Exn AttributeError ''object has no attribute get''))"

text \<open>\<^verbatim>\<open>for item in data\<close>: a list yields its elements, a dict its keys, a string its
  characters; the other values are not iterable.\<close>

definition iterate :: "json \<Rightarrow> exn + json list" where
  "iterate data =
     (case data of
        JList items \<Rightarrow> Inr items
      | JDict kv \<Rightarrow> Inr (map (\<lambda>(k, v). JStr k) kv)
      | JStr s \<Rightarrow> Inr (map (\<lambda>c. JStr [c]) s)
      | _ \<Rightarrow> Inl (Exn TypeError ''object is not iterable''))"

section \<open>models/intent.py, models/agent_response.py, models/configuration.py\<close>

datatype IntentType =
  M365_EMAIL | M365_CALENDAR | M365_FILES | M365_PEOPLE | GENERAL_KNOWLEDGE

text \<open>\<^verbatim>\<open>member.value\<close>\<close>

fun enum_value :: "IntentType \<Rightarrow> string" where
  "enum_value M365_EMAIL = ''M365Email''"
| "enum_value M365_CALENDAR = ''M365Calendar''"
| "enum_value M365_FILES = ''M365Files''"
| "enum_value M365_PEOPLE = ''M365People''"
| "enum_value GENERAL_KNOWLEDGE = ''GeneralKnowledge''"

text \<open>\<^verbatim>\<open>IntentType(v)\<close>: the member whose value is \<open>v\<close>, \<^verbatim>\<open>ValueError\<close> when there is
  none (the same for a value that is not a string).\<close>

definition IntentType_call :: "json \<Rightarrow> exn + IntentType" where
  "IntentType_call v =
     (case v of
        JStr s \<Rightarrow>
          (case find (\<lambda>t. enum_value t = s)
                  [M365_EMAIL, M365_CALENDAR, M365_FILES, M365_PEOPLE, GENERAL_KNOWLEDGE] of
             Some t \<Rightarrow> Inr t
           | None \<Rightarrow> Inl (Exn ValueError ''is not a valid IntentType''))
      | _ \<Rightarrow> Inl (Exn ValueError ''is not a valid IntentType''))"

text \<open>The \<^verbatim>\<open>type\<close> attribute at run time. The dataclass does not enforce its annotation:
  \<^verbatim>\<open>__post_init__\<close> converts a \<^verbatim>\<open>str\<close> and keeps every other value as it is, so
  \<open>NonMember\<close> holds a value that is not a \<^verbatim>\<open>str\<close>.\<close>

datatype type_value = Member IntentType | NonMember json

record Intent =
  type :: type_value
  query :: json
  confidence :: json

text \<open>\<^verbatim>\<open>Intent(type=t, query=q, confidence=c)\<close> with its \<^verbatim>\<open>__post_init__\<close>. A member of
  the \<^verbatim>\<open>str\<close> enumeration is a \<^verbatim>\<open>str\<close> too, and \<^verbatim>\<open>IntentType(member)\<close> is the member.\<close>

definition Intent_init :: "type_value \<Rightarrow> json \<Rightarrow> json \<Rightarrow> exn + Intent" where
  "Intent_init t q c =
     (case t of
        Member m \<Rightarrow> Inr \<lparr>type = Member m, query = q, confidence = c\<rparr>
      | NonMember (JStr s) \<Rightarrow>
          (case IntentType_call (JStr s) of
             Inl e \<Rightarrow> Inl e
           | Inr m \<Rightarrow> Inr \<lparr>type = Member m, query = q, confidence = c\<rparr>)
      | NonMember v \<Rightarrow> Inr \<lparr>type = NonMember v, query = q, confidence = c\<rparr>)"

text \<open>\<^verbatim>\<open>intent.type.value\<close>: only a member of the enumeration has the attribute.\<close>

definition type_dot_value :: "type_value \<Rightarrow> exn + string" where
  "type_dot_value t =
     (case t of
        Member m \<Rightarrow> Inr (enum_value m)
      | NonMember v \<Rightarrow> Inl (Exn AttributeError ''object has no attribute value''))"

text \<open>\<^verbatim>\<open>AgentResponse\<close>; \<open>success\<close> defaults to \<open>True\<close>, \<open>error\<close> to \<open>None\<close>, \<open>metadata\<close>
  to the empty dict. Its \<^verbatim>\<open>__post_init__\<close> changes nothing on the values the
  orchestrator passes (a member, or the \<open>type\<close> of an \<open>Intent\<close>).\<close>

record AgentResponse =
  agent :: string
  intent_type :: type_value
  content :: string
  success :: bool
  error :: "string option"
  metadata :: "(string \<times> json) list"

record OrchestrationSettings =
  max_agent_calls :: int
  timeout_seconds :: int
  enable_parallel_execution :: bool

section \<open>plugins/intent_plugin.py\<close>

text \<open>The completion service \<^verbatim>\<open>kernel.invoke_prompt(prompt)\<close> is a parameter
  \<open>invoke_prompt :: string \<Rightarrow> exn + string option\<close>: it raises, or returns a result on
  which the sources' test \<^verbatim>\<open>if result\<close> fails (\<open>None\<close>), or a result \<open>Some s\<close> that
  passes the test and has \<^verbatim>\<open>str(result) = s\<close>.\<close>

type_synonym kernel_result = "string option"

text \<open>\<^verbatim>\<open>str(result) if result else fallback\<close>\<close>

definition str_or :: "kernel_result \<Rightarrow> string \<Rightarrow> string" where
  "str_or result fallback = (case result of Some s \<Rightarrow> s | None \<Rightarrow> fallback)"

text \<open>\<^verbatim>\<open>re.search(opener + r"\s*(.*?)\s*```", response, re.DOTALL)\<close> and its group 1,
  \<open>None\<close> when nothing matches. The leftmost match starts at the first occurrence of
  the opener; the greedy \<^verbatim>\<open>\s*\<close> takes all the whitespace behind it; the lazy group
  ends where whitespace followed by the next fence begins.\<close>

definition fenced_search :: "string \<Rightarrow> string \<Rightarrow> string option" where
  "fenced_search opener response =
     (case split_on opener response of
        None \<Rightarrow> None
      | Some (before, rest) \<Rightarrow>
          (case split_on ''```'' (lstrip rest) of
             None \<Rightarrow> None
           | Some (body, after) \<Rightarrow> Some (rstrip body)))"

text \<open>\<^verbatim>\<open>IntentPlugin._extract_json\<close>\<close>

definition extract_json :: "string \<Rightarrow> string" where
  "extract_json response =
     (if contains ''```json'' response then
        (case fenced_search ''```json'' response of
           Some group1 \<Rightarrow> strip group1
         | None \<Rightarrow> strip response)
      else if contains ''```'' response then
        (case fenced_search ''```'' response of
           Some group1 \<Rightarrow> strip group1
         | None \<Rightarrow> strip response)
      else strip response)"

text \<open>The classification prompt (an f-string around the query).\<close>

definition intent_prompt :: "string \<Rightarrow> string" where
  \<open>intent_prompt q =
      ''You are an intent classifier for a multi-agent system. Analyze the user's query and identify which agents should handle it.\<newline>'' @
      ''\<newline>'' @
      ''Available intent types:\<newline>'' @
      ''- M365Email: Questions about emails, messages, inbox, mail\<newline>'' @
      ''- M365Calendar: Questions about meetings, schedule, calendar, appointments\<newline>'' @
      ''- M365Files: Questions about documents, files, SharePoint, OneDrive\<newline>'' @
      ''- M365People: Questions about colleagues, organization, team members, expertise\<newline>'' @
      ''- GeneralKnowledge: General questions not related to Microsoft 365 data\<newline>'' @
      ''\<newline>'' @
      ''Rules:\<newline>'' @
      ''1. A query can have multiple intents (e.g., "Summarize my emails and explain REST APIs" has M365Email + GeneralKnowledge)\<newline>'' @
      ''2. If the query mentions personal data (my emails, my calendar, my files, my team), route to the appropriate M365 intent\<newline>'' @
      ''3. If the query is about general concepts, technology, or information not in M365, use GeneralKnowledge\<newline>'' @
      ''4. Extract the relevant sub-query for each intent\<newline>'' @
      ''\<newline>'' @
      ''User Query: '' @ q @
      ''\<newline>'' @
      ''\<newline>'' @
      ''Respond with ONLY a JSON array, no other text:\<newline>'' @
      ''[\<newline>'' @
      ''  {"type": "IntentType", "query": "extracted sub-query for this intent"}\<newline>'' @
      '']\<newline>'' @
      ''\<newline>'' @
      ''Example for "What meetings do I have tomorrow and what is Docker?":\<newline>'' @
      ''[\<newline>'' @
      ''  {"type": "M365Calendar", "query": "What meetings do I have tomorrow"},\<newline>'' @
      ''  {"type": "GeneralKnowledge", "query": "What is Docker"}\<newline>'' @
      '']\<newline>''\<close>

text \<open>\<^verbatim>\<open>IntentPlugin.analyze_intent\<close>, the kernel function \<^verbatim>\<open>AnalyzeIntent\<close>.\<close>

definition plugin_analyze_intent :: "(string \<Rightarrow> exn + kernel_result) \<Rightarrow> string \<Rightarrow> exn + string" where
  "plugin_analyze_intent invoke_prompt q =
     (case invoke_prompt (intent_prompt q) of
        Inl e \<Rightarrow> Inl e
      | Inr result \<Rightarrow> Inr (extract_json (str_or result ''[]'')))"

text \<open>The fallback every path of the classifier uses:
  \<^verbatim>\<open>Intent(type=IntentType.GENERAL_KNOWLEDGE, query=original_query)\<close>.\<close>

definition general_knowledge_fallback :: "string \<Rightarrow> Intent" where
  "general_knowledge_fallback original_query =
     \<lparr>type = Member GENERAL_KNOWLEDGE, query = JStr original_query, confidence = JNone\<rparr>"

text \<open>One round of the loop body of \<^verbatim>\<open>parse_intent_response\<close>:
  \<^verbatim>\<open>Intent(type=IntentType(item["type"]), query=item["query"], confidence=item.get("confidence"))\<close>,
  its arguments evaluated from left to right.\<close>

definition parse_item :: "json \<Rightarrow> exn + Intent" where
  "parse_item item =
     (case subscript item ''type'' of
        Inl e \<Rightarrow> Inl e
      | Inr t \<Rightarrow>
          (case IntentType_call t of
             Inl e \<Rightarrow> Inl e
           | Inr m \<Rightarrow>
               (case subscript item ''query'' of
                  Inl e \<Rightarrow> Inl e
                | Inr q \<Rightarrow>
                    (case dict_get item ''confidence'' of
                       Inl e \<Rightarrow> Inl e
                     | Inr c \<Rightarrow> Intent_init (Member m) q c))))"

text \<open>The loop: \<^verbatim>\<open>except (KeyError, ValueError): continue\<close>; any other exception leaves
  the loop and the function.\<close>

fun parse_loop :: "json list \<Rightarrow> Intent list \<Rightarrow> exn + Intent list" where
  "parse_loop [] intents = Inr intents"
| "parse_loop (item # rest) intents =
     (case parse_item item of
        Inr intent \<Rightarrow> parse_loop rest (intents @ [intent])
      | Inl e \<Rightarrow>
          (if isinstance e KeyError \<or> isinstance e ValueError then parse_loop rest intents
           else Inl e))"

text \<open>\<^verbatim>\<open>IntentPlugin.parse_intent_response\<close>; \<open>loads\<close> is \<^verbatim>\<open>json.loads\<close>, \<open>None\<close> when it
  raises \<^verbatim>\<open>JSONDecodeError\<close>.\<close>

definition parse_intent_response ::
  "(string \<Rightarrow> json option) \<Rightarrow> string \<Rightarrow> string \<Rightarrow> exn + Intent list" where
  "parse_intent_response loads json_response original_query =
     (case loads json_response of
        None \<Rightarrow> Inr [general_knowledge_fallback original_query]
      | Some intents_data \<Rightarrow>
          (case intents_data of
             JList items \<Rightarrow>
               (if items = [] then Inr [general_knowledge_fallback original_query]
                else
                  (case parse_loop items [] of
                     Inl e \<Rightarrow> Inl e
                   | Inr intents \<Rightarrow>
                       (if intents = [] then Inr [general_knowledge_fallback original_query]
                        else Inr intents)))
           | _ \<Rightarrow> Inr [general_knowledge_fallback original_query]))"

section \<open>agent/orchestrator_agent.py: classification and execution\<close>

text \<open>The per-turn kernel that \<^verbatim>\<open>_setup_plugins\<close> returns, as the orchestrator uses it:
  one field for each \<^verbatim>\<open>kernel.invoke(plugin_name=..., function_name=..., ...)\<close> it
  makes. \<open>M365Copilot k function_name q\<close> is the call into the plugin
  \<^verbatim>\<open>M365CopilotPlugin\<close>. The functions are deterministic responders: the same
  arguments give the same outcome.\<close>

record kernel =
  AnalyzeIntent :: "string \<Rightarrow> exn + kernel_result"
  M365Copilot :: "string \<Rightarrow> json \<Rightarrow> exn + kernel_result"
  AnswerGeneralQuestion :: "json \<Rightarrow> exn + kernel_result"
  Synthesize :: "string \<Rightarrow> string \<Rightarrow> exn + kernel_result"

text \<open>\<^verbatim>\<open>Intent(**item)\<close>: the item must be a mapping whose keys are among the three
  fields and include the two without a default; then \<^verbatim>\<open>__post_init__\<close> runs.\<close>

definition Intent_kwargs :: "json \<Rightarrow> exn + Intent" where
  "Intent_kwargs item =
     (case item of
        JDict kv \<Rightarrow>
          (if \<not> list_all (\<lambda>(k, v). k \<in> set [''type'', ''query'', ''confidence'']) kv
           then Inl (Exn TypeError ''got an unexpected keyword argument'')
           else
             (case (map_of kv ''type'', map_of kv ''query'') of
                (Some t, Some q) \<Rightarrow>
                  Intent_init (NonMember t) q
                    (case map_of kv ''confidence'' of Some c \<Rightarrow> c | None \<Rightarrow> JNone)
              | _ \<Rightarrow> Inl (Exn TypeError ''missing required positional argument'')))
      | _ \<Rightarrow> Inl (Exn TypeError ''argument after ** must be a mapping''))"

text \<open>A list comprehension \<^verbatim>\<open>[f(x) for x in xs]\<close>: the first call that raises ends it.\<close>

fun comprehension :: "('a \<Rightarrow> exn + 'b) \<Rightarrow> 'a list \<Rightarrow> exn + 'b list" where
  "comprehension f [] = Inr []"
| "comprehension f (x # xs) =
     (case f x of
        Inl e \<Rightarrow> Inl e
      | Inr y \<Rightarrow> (case comprehension f xs of Inl e \<Rightarrow> Inl e | Inr ys \<Rightarrow> Inr (y # ys)))"

text \<open>The \<^verbatim>\<open>try\<close> block of \<^verbatim>\<open>_analyze_intent\<close>.\<close>

definition analyze_intent_try ::
  "(string \<Rightarrow> json option) \<Rightarrow> kernel \<Rightarrow> string \<Rightarrow> exn + Intent list" where
  "analyze_intent_try loads k q =
     (case AnalyzeIntent k q of
        Inl e \<Rightarrow> Inl e
      | Inr result \<Rightarrow>
          (case loads (str_or result ''[]'') of
             None \<Rightarrow> Inl (Exn JSONDecodeError ''Expecting value'')
           | Some data \<Rightarrow>
               (case iterate data of
                  Inl e \<Rightarrow> Inl e
                | Inr items \<Rightarrow> comprehension Intent_kwargs items)))"

text \<open>\<^verbatim>\<open>OrchestratorAgentApp._analyze_intent\<close>: \<^verbatim>\<open>except Exception\<close> returns the
  fallback.\<close>

definition analyze_intent ::
  "(string \<Rightarrow> json option) \<Rightarrow> kernel \<Rightarrow> string \<Rightarrow> exn + Intent list" where
  "analyze_intent loads k q =
     (case analyze_intent_try loads k q of
        Inl e \<Rightarrow> Inr [general_knowledge_fallback q]
      | Inr intents \<Rightarrow> Inr intents)"

text \<open>\<^verbatim>\<open>OrchestratorAgentApp._execute_m365_plugin\<close>\<close>

definition execute_m365_plugin ::
  "kernel \<Rightarrow> string \<Rightarrow> json \<Rightarrow> IntentType \<Rightarrow> exn + AgentResponse" where
  "execute_m365_plugin k function_name q t =
     (case M365Copilot k function_name q of
        Inl e \<Rightarrow> Inl e
      | Inr result \<Rightarrow>
          Inr \<lparr>agent = ''m365_copilot'', intent_type = Member t,
               content = str_or result ''No response received.'',
               success = True, error = None, metadata = []\<rparr>)"

text \<open>\<^verbatim>\<open>OrchestratorAgentApp._execute_general_knowledge\<close>\<close>

definition execute_general_knowledge :: "kernel \<Rightarrow> json \<Rightarrow> exn + AgentResponse" where
  "execute_general_knowledge k q =
     (case AnswerGeneralQuestion k q of
        Inl e \<Rightarrow> Inl e
      | Inr result \<Rightarrow>
          Inr \<lparr>agent = ''azure_openai'', intent_type = Member GENERAL_KNOWLEDGE,
               content = str_or result ''I'm unable to answer that question.'',
               success = True, error = None, metadata = []\<rparr>)"

text \<open>The \<^verbatim>\<open>try\<close> block of \<^verbatim>\<open>_execute_agent_for_intent\<close>: the switch on the intent
  type.\<close>

definition execute_agent_for_intent_try :: "kernel \<Rightarrow> Intent \<Rightarrow> exn + AgentResponse" where
  "execute_agent_for_intent_try k intent =
     (if type intent = Member M365_EMAIL then
        execute_m365_plugin k ''QueryEmails'' (query intent) M365_EMAIL
      else if type intent = Member M365_CALENDAR then
        execute_m365_plugin k ''QueryCalendar'' (query intent) M365_CALENDAR
      else if type intent = Member M365_FILES then
        execute_m365_plugin k ''QueryFiles'' (query intent) M365_FILES
      else if type intent = Member M365_PEOPLE then
        execute_m365_plugin k ''QueryPeople'' (query intent) M365_PEOPLE
      else if type intent = Member GENERAL_KNOWLEDGE then
        execute_general_knowledge k (query intent)
      else
        Inr \<lparr>agent = ''unknown'', intent_type = type intent,
             content = ''I'm not sure how to handle that request.'',
             success = False, error = None, metadata = []\<rparr>)"

text \<open>Its \<^verbatim>\<open>except Exception as e\<close> clause.\<close>

definition execute_agent_for_intent_except :: "Intent \<Rightarrow> exn \<Rightarrow> exn + AgentResponse" where
  "execute_agent_for_intent_except intent e =
     (case type_dot_value (type intent) of
        Inl a \<Rightarrow> Inl a
      | Inr v \<Rightarrow>
          Inr \<lparr>agent = v, intent_type = type intent,
               content = ''Error: '' @ message e,
               success = False, error = Some (message e), metadata = []\<rparr>)"

text \<open>\<^verbatim>\<open>OrchestratorAgentApp._execute_agent_for_intent\<close>\<close>

definition execute_agent_for_intent :: "kernel \<Rightarrow> Intent \<Rightarrow> exn + AgentResponse" where
  "execute_agent_for_intent k intent =
     (case execute_agent_for_intent_try k intent of
        Inl e \<Rightarrow> execute_agent_for_intent_except intent e
      | Inr response \<Rightarrow> Inr response)"

text \<open>The response the parallel branch of \<^verbatim>\<open>_execute_agents\<close> builds for a task whose
  result is an exception.\<close>

definition exception_response :: "Intent \<Rightarrow> exn \<Rightarrow> exn + AgentResponse" where
  "exception_response intent e =
     (case type_dot_value (type intent) of
        Inl a \<Rightarrow> Inl a
      | Inr v \<Rightarrow>
          Inr \<lparr>agent = v, intent_type = type intent,
               content = ''Error: '' @ message e,
               success = False, error = None, metadata = []\<rparr>)"

text \<open>The loop over \<^verbatim>\<open>enumerate(responses)\<close> after
  \<^verbatim>\<open>asyncio.gather(*tasks, return_exceptions=True)\<close>, which returns one outcome per
  task in the order of the tasks.\<close>

fun convert_exceptions :: "(Intent \<times> (exn + AgentResponse)) list \<Rightarrow> exn + AgentResponse list" where
  "convert_exceptions [] = Inr []"
| "convert_exceptions ((intent, outcome) # rest) =
     (case (case outcome of Inl e \<Rightarrow> exception_response intent e | Inr r \<Rightarrow> Inr r) of
        Inl a \<Rightarrow> Inl a
      | Inr r \<Rightarrow>
          (case convert_exceptions rest of Inl a \<Rightarrow> Inl a | Inr rs \<Rightarrow> Inr (r # rs)))"

text \<open>The sequential loop: an exception of one call leaves the loop.\<close>

fun run_sequential :: "(Intent \<Rightarrow> exn + AgentResponse) \<Rightarrow> Intent list \<Rightarrow> exn + AgentResponse list" where
  "run_sequential exec [] = Inr []"
| "run_sequential exec (intent # rest) =
     (case exec intent of
        Inl e \<Rightarrow> Inl e
      | Inr r \<Rightarrow>
          (case run_sequential exec rest of Inl e \<Rightarrow> Inl e | Inr rs \<Rightarrow> Inr (r # rs)))"

text \<open>The body of \<^verbatim>\<open>_execute_agents\<close> with the per-intent coroutine as a parameter, so
  that its guard against a coroutine that raises can be stated.\<close>

definition execute_agents_with ::
  "(Intent \<Rightarrow> exn + AgentResponse) \<Rightarrow> bool \<Rightarrow> Intent list \<Rightarrow> exn + AgentResponse list" where
  "execute_agents_with exec in_parallel intents =
     (if in_parallel then convert_exceptions (zip intents (map exec intents))
      else run_sequential exec intents)"

text \<open>\<^verbatim>\<open>OrchestratorAgentApp._execute_agents\<close>\<close>

definition execute_agents ::
  "OrchestrationSettings \<Rightarrow> kernel \<Rightarrow> Intent list \<Rightarrow> exn + AgentResponse list" where
  "execute_agents settings k intents =
     execute_agents_with (execute_agent_for_intent k) (enable_parallel_execution settings) intents"

section \<open>plugins/azure_openai_plugin.py\<close>

definition answer_prompt :: "string \<Rightarrow> string" where
  "answer_prompt question =
      ''You are a helpful AI assistant. Answer the following question clearly and concisely.\<newline>'' @
      ''\<newline>'' @
      ''Question: '' @ question @
      ''\<newline>'' @
      ''\<newline>'' @
      ''Provide a clear, accurate answer based on your knowledge.''"

text \<open>\<^verbatim>\<open>AzureOpenAIPlugin.answer_general_question\<close>, the kernel function
  \<^verbatim>\<open>AnswerGeneralQuestion\<close>.\<close>

definition answer_general_question ::
  "(string \<Rightarrow> exn + kernel_result) \<Rightarrow> string \<Rightarrow> exn + string" where
  "answer_general_question invoke_prompt question =
     (case invoke_prompt (answer_prompt question) of
        Inl e \<Rightarrow> Inl e
      | Inr result \<Rightarrow> Inr (str_or result ''I'm unable to answer that question at the moment.''))"

section \<open>plugins/m365_copilot_plugin.py\<close>

text \<open>What the chat call returns, as far as the plugin looks at it: \<open>NoResponse\<close> is a
  response that is false or has no attribute \<^verbatim>\<open>messages\<close>; \<open>Messages ms\<close> lists the
  \<^verbatim>\<open>text\<close> attribute of each message (\<open>None\<close> when absent).\<close>

datatype chat_response = NoResponse | Messages "string option list"

text \<open>The connector as one call of the plugin finds it: the conversation id stored in
  the conversation state, the token exchange, the two calls of the Copilot client,
  and \<^verbatim>\<open>str\<close> of a coroutine object of \<^verbatim>\<open>_get_fallback_response\<close>
  (\<^verbatim>\<open><coroutine object ... at 0x...>\<close>).\<close>

record copilot =
  conversation_id :: "string option"
  exchange_token :: "exn + string option"
  post_conversation :: "exn + string option"
  post_chat :: "string \<Rightarrow> string \<Rightarrow> exn + chat_response"
  coroutine_str :: string

text \<open>The truth test on a value that is \<^verbatim>\<open>None\<close> or a string: \<open>truthy v = Some s\<close> when
  \<open>v\<close> is the string \<open>s\<close> and passes the test, \<open>None\<close> when \<^verbatim>\<open>not v\<close>.\<close>

definition truthy :: "string option \<Rightarrow> string option" where
  "truthy v = (case v of None \<Rightarrow> None | Some s \<Rightarrow> (if s = [] then None else Some s))"

text \<open>\<^verbatim>\<open>M365CopilotPlugin._create_copilot_client\<close>\<close>

definition create_copilot_client :: "copilot \<Rightarrow> exn + unit" where
  "create_copilot_client c =
     (case exchange_token c of
        Inl e \<Rightarrow> Inl e
      | Inr access_token \<Rightarrow>
          (case truthy access_token of
             None \<Rightarrow>
               Inl (Exn RuntimeError
                      ''Access token not available. Ensure authentication is configured.'')
           | Some token \<Rightarrow> Inr ()))"

text \<open>What \<^verbatim>\<open>_call_copilot_chat_api\<close> returns: a string, or the coroutine object of
  \<^verbatim>\<open>_get_fallback_response\<close>, which the \<^verbatim>\<open>except AttributeError\<close> clause returns
  without awaiting it.\<close>

datatype returned = Str string | Coroutine

text \<open>Step 2 of the \<^verbatim>\<open>try\<close> block: the chat message, with the inner
  \<^verbatim>\<open>try/except AttributeError\<close>.\<close>

definition send_chat_message :: "copilot \<Rightarrow> string \<Rightarrow> string \<Rightarrow> exn + returned" where
  "send_chat_message c cid q =
     (case post_chat c cid q of
        Inl e \<Rightarrow> (if isinstance e AttributeError then Inr Coroutine else Inl e)
      | Inr response \<Rightarrow>
          (case response of
             NoResponse \<Rightarrow> Inr (Str ''No response received from Copilot.'')
           | Messages ms \<Rightarrow>
               (if ms = [] then Inr (Str ''No response received from Copilot.'')
                else
                  (case last ms of
                     None \<Rightarrow> Inr (Str ''No response content.'')
                   | Some response_text \<Rightarrow>
                       (if response_text = [] then Inr (Str ''No response content.'')
                        else Inr (Str response_text))))))"

text \<open>The outer \<^verbatim>\<open>try\<close> block of \<^verbatim>\<open>_call_copilot_chat_api\<close>: the conversation id the
  state holds afterwards, and the outcome.\<close>

definition call_copilot_chat_api_try :: "copilot \<Rightarrow> string \<Rightarrow> string option \<times> (exn + returned)" where
  "call_copilot_chat_api_try c q =
     (case create_copilot_client c of
        Inl e \<Rightarrow> (conversation_id c, Inl e)
      | Inr client \<Rightarrow>
          (case truthy (conversation_id c) of
             Some cid \<Rightarrow> (conversation_id c, send_chat_message c cid q)
           | None \<Rightarrow>
               (case post_conversation c of
                  Inl e \<Rightarrow> (conversation_id c, Inl e)
                | Inr conversation \<Rightarrow>
                    (case truthy conversation of
                       None \<Rightarrow>
                         (conversation_id c,
                          Inl (Exn RuntimeError ''Failed to create conversation - no ID returned''))
                     | Some cid \<Rightarrow> (Some cid, send_chat_message c cid q)))))"

text \<open>The outer \<^verbatim>\<open>except Exception as ex\<close> clause: the mapping of an error message
  to a reply for the user; an error that matches nothing is raised again.\<close>

definition call_copilot_chat_api_except :: "exn \<Rightarrow> exn + returned" where
  "call_copilot_chat_api_except ex =
     (let error_msg = lower (message ex) in
      if contains ''401'' error_msg \<or> contains ''unauthorized'' error_msg then
        Inr (Str ''Your session has expired. Please log in again.'')
      else if contains ''403'' error_msg \<or> contains ''forbidden'' error_msg then
        Inr (Str ''You don't have access to Microsoft 365 Copilot. Please contact your administrator to verify your license.'')
      else if contains ''404'' error_msg \<or> contains ''not found'' error_msg then
        Inr (Str ''The Copilot service is not available. Please try again later.'')
      else if contains ''500'' error_msg \<or> contains ''server error'' error_msg then
        Inr (Str ''The Copilot service encountered an error. Please try again later.'')
      else Inl ex)"

text \<open>\<^verbatim>\<open>M365CopilotPlugin._call_copilot_chat_api\<close>, which the four kernel functions
  \<^verbatim>\<open>QueryEmails\<close>, \<^verbatim>\<open>QueryCalendar\<close>, \<^verbatim>\<open>QueryFiles\<close> and \<^verbatim>\<open>QueryPeople\<close> return.\<close>

definition call_copilot_chat_api :: "copilot \<Rightarrow> string \<Rightarrow> string option \<times> (exn + returned)" where
  "call_copilot_chat_api c q =
     (case call_copilot_chat_api_try c q of
        (cid, Inl ex) \<Rightarrow> (cid, call_copilot_chat_api_except ex)
      | (cid, Inr v) \<Rightarrow> (cid, Inr v))"

text \<open>\<^verbatim>\<open>str\<close> of the value a kernel function returned.\<close>

definition str_of :: "copilot \<Rightarrow> returned \<Rightarrow> string" where
  "str_of c v = (case v of Str s \<Rightarrow> s | Coroutine \<Rightarrow> coroutine_str c)"

definition query_m365 :: "copilot \<Rightarrow> string \<Rightarrow> exn + string" where
  "query_m365 c q =
     (case snd (call_copilot_chat_api c q) of Inl e \<Rightarrow> Inl e | Inr v \<Rightarrow> Inr (str_of c v))"

section \<open>plugins/synthesis_plugin.py\<close>

definition synthesis_prompt :: "string \<Rightarrow> string \<Rightarrow> string" where
  "synthesis_prompt original_query responses =
      ''You are a response synthesizer. Your job is to combine multiple agent responses into a single,\<newline>'' @
      ''coherent response that addresses the user's original query.\<newline>'' @
      ''\<newline>'' @
      ''Original User Query: '' @ original_query @
      ''\<newline>'' @
      ''\<newline>'' @
      ''Agent Responses:\<newline>'' @ responses @
      ''\<newline>'' @
      ''\<newline>'' @
      ''Instructions:\<newline>'' @
      ''1. Analyze all the agent responses\<newline>'' @
      ''2. Combine them into a single, well-organized response\<newline>'' @
      ''3. Maintain clear structure - if there are multiple topics, organize them with headers or clear transitions\<newline>'' @
      ''4. Remove any redundancy between responses\<newline>'' @
      ''5. Ensure the response directly addresses the user's original query\<newline>'' @
      ''6. Keep the tone helpful and conversational\<newline>'' @
      ''7. If one response is about M365 data (emails, calendar, etc.) and another is general knowledge,\<newline>'' @
      ''   present the M365 data first, then the general information\<newline>'' @
      ''\<newline>'' @
      ''Synthesized Response:\<newline>''"

text \<open>\<^verbatim>\<open>SynthesisPlugin.synthesize\<close>, the kernel function \<^verbatim>\<open>Synthesize\<close>.\<close>

definition synthesize ::
  "(string \<Rightarrow> exn + kernel_result) \<Rightarrow> string \<Rightarrow> string \<Rightarrow> exn + string" where
  "synthesize invoke_prompt original_query responses =
     (case invoke_prompt (synthesis_prompt original_query responses) of
        Inl e \<Rightarrow> Inl e
      | Inr result \<Rightarrow> Inr (str_or result ''I couldn't synthesize a response.''))"

text \<open>\<^verbatim>\<open>SynthesisPlugin.format_responses_for_synthesis\<close>; \<open>dumps\<close> is
  \<^verbatim>\<open>json.dumps(_, indent=2)\<close>.\<close>

definition response_dict :: "AgentResponse \<Rightarrow> exn + json" where
  "response_dict r =
     (case type_dot_value (intent_type r) of
        Inl e \<Rightarrow> Inl e
      | Inr v \<Rightarrow>
          Inr (JDict [(''agent'', JStr (agent r)), (''intent_type'', JStr v),
                      (''content'', JStr (content r))]))"

definition format_responses_for_synthesis ::
  "(json \<Rightarrow> string) \<Rightarrow> AgentResponse list \<Rightarrow> exn + string" where
  "format_responses_for_synthesis dumps responses =
     (case comprehension response_dict (filter success responses) of
        Inl e \<Rightarrow> Inl e
      | Inr response_dicts \<Rightarrow> Inr (dumps (JList response_dicts)))"

section \<open>The libraries, and the kernel built from the plugins\<close>

text \<open>The library calls the model takes as parameters. \<open>bind_argument\<close> is how
  \<^verbatim>\<open>kernel.invoke\<close> hands an argument that is not a \<^verbatim>\<open>str\<close> to a plugin parameter
  annotated \<^verbatim>\<open>str\<close> (a \<^verbatim>\<open>str\<close> is passed as it is); \<open>reraise\<close> is the exception
  \<^verbatim>\<open>kernel.invoke\<close> raises when the plugin function raised.\<close>

record library =
  json_loads :: "string \<Rightarrow> json option"
  json_dumps :: "json \<Rightarrow> string"
  invoke_prompt :: "string \<Rightarrow> exn + kernel_result"
  bind_argument :: "json \<Rightarrow> exn + string"
  reraise :: "exn \<Rightarrow> exn"

text \<open>The string a plugin function receives for an argument.\<close>

definition pass_argument :: "library \<Rightarrow> json \<Rightarrow> exn + string" where
  "pass_argument lib arg = (case arg of JStr s \<Rightarrow> Inr s | _ \<Rightarrow> bind_argument lib arg)"

text \<open>\<^verbatim>\<open>kernel.invoke\<close> of a plugin function of one argument: the result object it
  returns passes the test \<^verbatim>\<open>if result\<close>, and its \<^verbatim>\<open>str\<close> is the returned string.\<close>

definition kernel_invoke ::
  "library \<Rightarrow> (string \<Rightarrow> exn + string) \<Rightarrow> json \<Rightarrow> exn + kernel_result" where
  "kernel_invoke lib f arg =
     (case pass_argument lib arg of
        Inl e \<Rightarrow> Inl e
      | Inr s \<Rightarrow> (case f s of Inl e \<Rightarrow> Inl (reraise lib e) | Inr v \<Rightarrow> Inr (Some v)))"

text \<open>The kernel of \<^verbatim>\<open>_setup_plugins\<close>: the four plugins registered under their names,
  the M365 plugin as one call finds the connector.\<close>

definition setup_plugins :: "library \<Rightarrow> copilot \<Rightarrow> kernel" where
  "setup_plugins lib c =
     \<lparr>AnalyzeIntent = (\<lambda>q. kernel_invoke lib (plugin_analyze_intent (invoke_prompt lib)) (JStr q)),
      M365Copilot = (\<lambda>function_name q.
        if function_name \<in> set [''QueryEmails'', ''QueryCalendar'', ''QueryFiles'', ''QueryPeople'']
        then kernel_invoke lib (query_m365 c) q
        else Inl (Exn OtherError ''function not found'')),
      AnswerGeneralQuestion = (\<lambda>q. kernel_invoke lib (answer_general_question (invoke_prompt lib)) q),
      Synthesize = (\<lambda>original_query responses.
        kernel_invoke lib (synthesize (invoke_prompt lib) original_query) (JStr responses))\<rparr>"

section \<open>agent/orchestrator_agent.py: synthesis and the message handler\<close>

text \<open>\<^verbatim>\<open>OrchestratorAgentApp._synthesize_response\<close>\<close>

definition synthesize_response ::
  "(json \<Rightarrow> string) \<Rightarrow> kernel \<Rightarrow> string \<Rightarrow> AgentResponse list \<Rightarrow> exn + string" where
  "synthesize_response dumps k original_query responses =
     (case format_responses_for_synthesis dumps responses of
        Inl e \<Rightarrow> Inl e
      | Inr formatted_responses \<Rightarrow>
          (case Synthesize k original_query formatted_responses of
             Inl e \<Rightarrow> Inl e
           | Inr result \<Rightarrow> Inr (str_or result ''I couldn't generate a response.'')))"

definition MAX_MESSAGE_LENGTH :: nat where
  "MAX_MESSAGE_LENGTH = 4000"

text \<open>\<^verbatim>\<open>intents[:n]\<close>: a negative bound counts from the end.\<close>

definition slice_to :: "int \<Rightarrow> 'a list \<Rightarrow> 'a list" where
  "slice_to n xs = (if 0 \<le> n then take (nat n) xs else take (nat (int (length xs) + n)) xs)"

text \<open>The \<^verbatim>\<open>MaxAgentCalls\<close> limit of the handler.\<close>

definition apply_max_agent_calls :: "OrchestrationSettings \<Rightarrow> Intent list \<Rightarrow> Intent list" where
  "apply_max_agent_calls settings intents =
     (if int (length intents) > max_agent_calls settings
      then slice_to (max_agent_calls settings) intents
      else intents)"

text \<open>What a turn does that can be seen from outside the handler, in order: the
  replies it sends, the timeout it opens, and the three stages it calls with their
  arguments.\<close>

datatype event =
  SendActivity string
  | Timeout int
  | AnalyzeIntentStage string
  | ExecuteAgentsStage "Intent list"
  | SynthesizeStage string "AgentResponse list"

text \<open>The block under \<^verbatim>\<open>async with asyncio.timeout(...)\<close>: the events, and the
  exception that left the block if one did. The log line
  \<^verbatim>\<open>', '.join(i.type.value for i in intents)\<close> raises for a type that is not a member.\<close>

definition process_message ::
  "library \<Rightarrow> OrchestrationSettings \<Rightarrow> kernel \<Rightarrow> string \<Rightarrow> event list \<times> exn option" where
  "process_message lib settings k user_message =
     (case analyze_intent (json_loads lib) k user_message of
        Inl e \<Rightarrow> ([AnalyzeIntentStage user_message], Some e)
      | Inr classified \<Rightarrow>
          (let intents = apply_max_agent_calls settings classified in
           case comprehension (\<lambda>i. type_dot_value (type i)) intents of
             Inl e \<Rightarrow> ([AnalyzeIntentStage user_message], Some e)
           | Inr names \<Rightarrow>
               (case execute_agents settings k intents of
                  Inl e \<Rightarrow> ([AnalyzeIntentStage user_message, ExecuteAgentsStage intents], Some e)
                | Inr responses \<Rightarrow>
                    (case synthesize_response (json_dumps lib) k user_message responses of
                       Inl e \<Rightarrow>
                         ([AnalyzeIntentStage user_message, ExecuteAgentsStage intents,
                           SynthesizeStage user_message responses], Some e)
                     | Inr final_response \<Rightarrow>
                         ([AnalyzeIntentStage user_message, ExecuteAgentsStage intents,
                           SynthesizeStage user_message responses,
                           SendActivity final_response], None)))))"

text \<open>The handler \<^verbatim>\<open>on_message_activity\<close>; \<open>text\<close> is \<^verbatim>\<open>context.activity.text\<close>, \<open>k\<close> the
  kernel \<^verbatim>\<open>_setup_plugins\<close> returns for the turn. The second reply is the f-string
  with \<^verbatim>\<open>MAX_MESSAGE_LENGTH\<close> formatted. \<^verbatim>\<open>asyncio.TimeoutError\<close> is \<^verbatim>\<open>TimeoutError\<close>.\<close>

definition on_message_activity ::
  "library \<Rightarrow> OrchestrationSettings \<Rightarrow> kernel \<Rightarrow> string option \<Rightarrow> event list" where
  "on_message_activity lib settings k text =
     (let user_message = (case truthy text of Some t \<Rightarrow> strip t | None \<Rightarrow> []) in
      if user_message = [] then [SendActivity ''Please enter a message.'']
      else if length user_message > MAX_MESSAGE_LENGTH then
        [SendActivity ''Message too long. Maximum 4000 characters allowed.'']
      else
        (case process_message lib settings k user_message of
           (events, None) \<Rightarrow> Timeout (timeout_seconds settings) # events
         | (events, Some ex) \<Rightarrow>
             Timeout (timeout_seconds settings) # events @
             [SendActivity
                (if isinstance ex TimeoutError then
                   ''The request timed out. Please try a simpler query or try again later.''
                 else ''Sorry, an error occurred processing your request. Please try again.'')]))"

section \<open>Concrete inputs\<close>

text \<open>The inputs at which the theorems below are instantiated.\<close>

definition email_intent :: Intent where
  "email_intent = \<lparr>type = Member M365_EMAIL, query = JStr ''unread mail'', confidence = JNone\<rparr>"

definition calendar_intent :: Intent where
  "calendar_intent =
     \<lparr>type = Member M365_CALENDAR, query = JStr ''meetings tomorrow'', confidence = JNone\<rparr>"

definition knowledge_intent :: Intent where
  "knowledge_intent =
     \<lparr>type = Member GENERAL_KNOWLEDGE, query = JStr ''what is Docker'', confidence = JNone\<rparr>"

text \<open>An intent whose type is the number 5, as \<^verbatim>\<open>Intent(**{"type": 5, "query": "x"})\<close>
  builds it.\<close>

definition odd_intent :: Intent where
  "odd_intent = \<lparr>type = NonMember (JInt 5), query = JStr ''x'', confidence = JNone\<rparr>"

definition settings_of :: "int \<Rightarrow> bool \<Rightarrow> OrchestrationSettings" where
  "settings_of n p = \<lparr>max_agent_calls = n, timeout_seconds = 30, enable_parallel_execution = p\<rparr>"

text \<open>A kernel whose M365 plugin raises and whose other plugins answer.\<close>

definition offline_kernel :: kernel where
  "offline_kernel =
     \<lparr>AnalyzeIntent = (\<lambda>q. Inr None),
      M365Copilot = (\<lambda>function_name q. Inl (Exn OtherError ''connection reset'')),
      AnswerGeneralQuestion = (\<lambda>q. Inr (Some ''Docker is a container platform.'')),
      Synthesize = (\<lambda>original_query responses. Inr None)\<rparr>"

definition email_response :: AgentResponse where
  "email_response =
     \<lparr>agent = ''m365_copilot'', intent_type = Member M365_EMAIL, content = ''Two items.'',
      success = True, error = None, metadata = []\<rparr>"

definition calendar_response :: AgentResponse where
  "calendar_response =
     \<lparr>agent = ''m365_copilot'', intent_type = Member M365_CALENDAR, content = ''Two items.'',
      success = True, error = None, metadata = []\<rparr>"

definition knowledge_response :: AgentResponse where
  "knowledge_response =
     \<lparr>agent = ''azure_openai'', intent_type = Member GENERAL_KNOWLEDGE,
      content = ''Docker is a container platform.'', success = True, error = None,
      metadata = []\<rparr>"

text \<open>Two replies of the classifier, and a decoder that agrees with \<^verbatim>\<open>json.loads\<close> on
  them and on the empty array.\<close>

definition reply_three :: string where
  \<open>reply_three = ''[{"type": "M365Email", "query": "unread mail"}, {"type": "M365Calendar", "query": "meetings tomorrow"}, {"type": "GeneralKnowledge", "query": "what is Docker"}]''\<close>

definition reply_mixed :: string where
  \<open>reply_mixed = ''[{"type": "M365Email", "query": "unread mail"}, {"type": "Bogus", "query": "x"}]''\<close>

definition demo_loads :: "string \<Rightarrow> json option" where
  "demo_loads s =
     (if s = ''[]'' then Some (JList [])
      else if s = reply_three then
        Some (JList [JDict [(''type'', JStr ''M365Email''), (''query'', JStr ''unread mail'')],
                     JDict [(''type'', JStr ''M365Calendar''), (''query'', JStr ''meetings tomorrow'')],
                     JDict [(''type'', JStr ''GeneralKnowledge''), (''query'', JStr ''what is Docker'')]])
      else if s = reply_mixed then
        Some (JList [JDict [(''type'', JStr ''M365Email''), (''query'', JStr ''unread mail'')],
                     JDict [(''type'', JStr ''Bogus''), (''query'', JStr ''x'')]])
      else None)"

text \<open>Two libraries: the completion service of the first returns no result, that of the
  second the mixed reply. Neither binds an argument that is not a \<^verbatim>\<open>str\<close>, and
  \<^verbatim>\<open>kernel.invoke\<close> raises the plugin's exception as it is.\<close>

definition demo_library :: library where
  "demo_library =
     \<lparr>json_loads = demo_loads,
      json_dumps = (\<lambda>v. ''[]''),
      invoke_prompt = (\<lambda>prompt. Inr None),
      bind_argument = (\<lambda>v. Inl (Exn TypeError ''not a str'')),
      reraise = (\<lambda>e. e)\<rparr>"

definition mixed_library :: library where
  "mixed_library = demo_library\<lparr>invoke_prompt := (\<lambda>prompt. Inr (Some reply_mixed))\<rparr>"

text \<open>A kernel every plugin of which answers.\<close>

definition answering_kernel :: kernel where
  "answering_kernel =
     \<lparr>AnalyzeIntent = (\<lambda>q. Inr (Some reply_three)),
      M365Copilot = (\<lambda>function_name q. Inr (Some ''Two items.'')),
      AnswerGeneralQuestion = (\<lambda>q. Inr (Some ''Docker is a container platform.'')),
      Synthesize = (\<lambda>original_query responses. Inr (Some ''Here is your summary.''))\<rparr>"

text \<open>A connector with a stored conversation and a valid token, whose chat call raises
  the given exception.\<close>

definition chat_failure :: "exn \<Rightarrow> copilot" where
  "chat_failure e =
     \<lparr>conversation_id = Some ''19:conversation'',
      exchange_token = Inr (Some ''token''),
      post_conversation = Inr (Some ''19:created''),
      post_chat = (\<lambda>cid q. Inl e),
      coroutine_str = ''<coroutine object M365CopilotPlugin._get_fallback_response at 0x7f3a5c1d2e40>''\<rparr>"

text \<open>A per-intent coroutine that raises for the email intent and otherwise is the
  orchestrator's own.\<close>

definition raising_executor :: "Intent \<Rightarrow> exn + AgentResponse" where
  "raising_executor intent =
     (if type intent = Member M365_EMAIL then Inl (Exn RuntimeError ''boom'')
      else execute_agent_for_intent offline_kernel intent)"

section \<open>Per-intent execution\<close>

lemma try_raises_member:
  assumes "execute_agent_for_intent_try k intent = Inl e"
  shows "\<exists>m. type intent = Member m"
  using assms by (auto simp: execute_agent_for_intent_try_def split: if_splits)

text \<open>
  C2. For every intent and every kernel, \<open>execute_agent_for_intent\<close> returns a response
  and does not raise. When the dispatched branch (the M365 branch or the
  general-knowledge branch) raises \<open>e\<close>, the response has \<open>success = False\<close>, its content is
  \<open>Error: \<close> followed by \<open>str(e)\<close>, and its error is \<open>str(e)\<close>. When the branch returns a
  response, that response is returned.
\<close>

theorem execute_agent_for_intent_never_raises:
  "\<exists>response. execute_agent_for_intent k intent = Inr response \<and>
     (\<forall>e. execute_agent_for_intent_try k intent = Inl e \<longrightarrow>
        success response = False \<and> content response = ''Error: '' @ message e \<and>
        error response = Some (message e)) \<and>
     (\<forall>r. execute_agent_for_intent_try k intent = Inr r \<longrightarrow> response = r)"
proof (cases "execute_agent_for_intent_try k intent")
  case (Inl e)
  then obtain m where "type intent = Member m"
    using try_raises_member by blast
  with Inl show ?thesis
    by (simp add: execute_agent_for_intent_def execute_agent_for_intent_except_def type_dot_value_def)
next
  case (Inr r)
  then show ?thesis
    by (simp add: execute_agent_for_intent_def)
qed

theorem execute_agent_for_intent_never_raises_witness:
  "execute_agent_for_intent_try offline_kernel email_intent = Inl (Exn OtherError ''connection reset'') \<and>
   execute_agent_for_intent offline_kernel email_intent =
     Inr \<lparr>agent = ''M365Email'', intent_type = Member M365_EMAIL,
          content = ''Error: connection reset'', success = False,
          error = Some ''connection reset'', metadata = []\<rparr>"
  using execute_agent_for_intent_never_raises [of offline_kernel email_intent]
  by (simp add: execute_agent_for_intent_def execute_agent_for_intent_except_def
      execute_agent_for_intent_try_def execute_m365_plugin_def offline_kernel_def
      email_intent_def type_dot_value_def)

lemma execute_agent_for_intent_returns: "\<exists>r. execute_agent_for_intent k intent = Inr r"
proof (cases "execute_agent_for_intent_try k intent")
  case (Inl e)
  then obtain m where "type intent = Member m"
    using try_raises_member by blast
  with Inl show ?thesis
    by (simp add: execute_agent_for_intent_def execute_agent_for_intent_except_def type_dot_value_def)
next
  case (Inr r)
  then show ?thesis
    by (simp add: execute_agent_for_intent_def)
qed

section \<open>The call limit\<close>


text \<open>A turn of the handler on the concrete inputs: the classifier finds three intents,
  and all plugins answer.\<close>

lemma analyze_three:
  "analyze_intent demo_loads answering_kernel q = Inr [email_intent, calendar_intent, knowledge_intent]"
  by (simp add: analyze_intent_def analyze_intent_try_def answering_kernel_def str_or_def
      demo_loads_def reply_three_def reply_mixed_def iterate_def Intent_kwargs_def Intent_init_def
      IntentType_call_def email_intent_def calendar_intent_def knowledge_intent_def)

lemma execute_three:
  "execute_agents settings answering_kernel [email_intent, calendar_intent, knowledge_intent] =
     Inr [email_response, calendar_response, knowledge_response]"
  by (simp add: execute_agents_def execute_agents_with_def
      execute_agent_for_intent_def execute_agent_for_intent_try_def execute_m365_plugin_def
      execute_general_knowledge_def answering_kernel_def email_intent_def calendar_intent_def
      knowledge_intent_def str_or_def email_response_def calendar_response_def knowledge_response_def)


lemma names_three:
  "comprehension (\<lambda>i. type_dot_value (type i)) [email_intent, calendar_intent, knowledge_intent]
      = Inr [''M365Email'', ''M365Calendar'', ''GeneralKnowledge'']"
  by (simp add: type_dot_value_def email_intent_def calendar_intent_def knowledge_intent_def)


lemma synthesize_answering:
  "list_all (\<lambda>r. \<exists>m. intent_type r = Member m) responses \<Longrightarrow>
   synthesize_response dumps answering_kernel q responses = Inr ''Here is your summary.''"
proof -
  assume a: "list_all (\<lambda>r. \<exists>m. intent_type r = Member m) responses"
  have "\<exists>ds. comprehension response_dict rs = Inr ds"
    if "list_all (\<lambda>r. \<exists>m. intent_type r = Member m) rs" for rs
    using that by (induction rs) (auto simp: response_dict_def type_dot_value_def)
  moreover have "list_all (\<lambda>r. \<exists>m. intent_type r = Member m) (filter success responses)"
    using a by (induction responses) auto
  ultimately obtain ds where "comprehension response_dict (filter success responses) = Inr ds"
    by blast
  then show ?thesis
    by (simp add: synthesize_response_def format_responses_for_synthesis_def
        answering_kernel_def str_or_def)
qed

lemma process_three:
  "process_message demo_library (settings_of 5 True) answering_kernel q =
     ([AnalyzeIntentStage q, ExecuteAgentsStage [email_intent, calendar_intent, knowledge_intent],
       SynthesizeStage q [email_response, calendar_response, knowledge_response],
       SendActivity ''Here is your summary.''], None)"
proof -
  have l: "json_loads demo_library = demo_loads" by (simp add: demo_library_def)
  have a: "apply_max_agent_calls (settings_of 5 True) [email_intent, calendar_intent, knowledge_intent]
        = [email_intent, calendar_intent, knowledge_intent]"
    by (simp add: apply_max_agent_calls_def settings_of_def)
  have s: "synthesize_response (json_dumps demo_library) answering_kernel q
      [email_response, calendar_response, knowledge_response] = Inr ''Here is your summary.''"
    by (rule synthesize_answering)
      (simp add: email_response_def calendar_response_def knowledge_response_def)
  show ?thesis
    unfolding process_message_def l analyze_three
    by (simp add: a execute_three names_three s Let_def del: comprehension.simps)
qed


lemma timeout_settings_of: "timeout_seconds (settings_of n p) = 30"
  by (simp add: settings_of_def)



section \<open>Input validation\<close>

lemma dropWhile_replicate: "dropWhile P (replicate n x) = (if P x then [] else replicate n x)"
  by (cases n) simp_all

lemma strip_padded: "strip (CHR ''a'' # replicate n (CHR '' '')) = ''a''"
  by (simp add: strip_def lstrip_def rstrip_def dropWhile_append dropWhile_replicate is_space_def)

lemma strip_long: "strip (replicate n (CHR ''a'')) = replicate n (CHR ''a'')"
  by (simp add: strip_def lstrip_def rstrip_def dropWhile_replicate is_space_def)

lemma strip_blank: "strip ''  '' = []"
  by (simp add: strip_def lstrip_def rstrip_def is_space_def)

lemma truthy_replicate: "truthy (Some (replicate 4001 c)) = Some (replicate 4001 c)"
proof -
  have "replicate 4001 c \<noteq> []" by (metis length_replicate list.size(3) zero_neq_numeral)
  then show ?thesis by (simp add: truthy_def)
qed

text \<open>
  C7, as the code has it. A message that is absent, empty or only whitespace gets the
  reply \<open>Please enter a message.\<close> and nothing else happens: no timeout is opened and no
  stage is called. A message whose text, after the whitespace around it is stripped,
  is longer than 4000 characters gets the reply
  \<open>Message too long. Maximum 4000 characters allowed.\<close> and nothing else happens.
\<close>

theorem input_rejection:
  "((case truthy text of None \<Rightarrow> True | Some t \<Rightarrow> strip t = []) \<longrightarrow>
      on_message_activity lib settings k text = [SendActivity ''Please enter a message.'']) \<and>
   (\<forall>t. truthy text = Some t \<and> length (strip t) > 4000 \<longrightarrow>
      on_message_activity lib settings k text =
        [SendActivity ''Message too long. Maximum 4000 characters allowed.''])"
  by (auto simp: on_message_activity_def Let_def MAX_MESSAGE_LENGTH_def split: option.splits)

theorem input_rejection_witness:
  "on_message_activity demo_library (settings_of 5 True) answering_kernel None
     = [SendActivity ''Please enter a message.''] \<and>
   on_message_activity demo_library (settings_of 5 True) answering_kernel (Some ''  '')
     = [SendActivity ''Please enter a message.''] \<and>
   on_message_activity demo_library (settings_of 5 True) answering_kernel
       (Some (replicate 4001 (CHR ''a'')))
     = [SendActivity ''Message too long. Maximum 4000 characters allowed.'']"
proof -
  have 1: "truthy None = None" "truthy (Some ''  '') = Some ''  ''"
    by (simp_all add: truthy_def)
  have 2: "length (strip (replicate 4001 (CHR ''a''))) > 4000"
    by (simp add: strip_long)
  show ?thesis
    using input_rejection [of None demo_library "settings_of 5 True" answering_kernel]
      input_rejection [of "Some ''  ''" demo_library "settings_of 5 True" answering_kernel]
      input_rejection [of "Some (replicate 4001 (CHR ''a''))" demo_library "settings_of 5 True" answering_kernel]
      1 2 truthy_replicate [of "CHR ''a''"] strip_blank
    by simp
qed

text \<open>
  C7 as stated fails: the message \<open>a\<close> followed by 4000 spaces has 4001 characters, and
  the handler does not reject it. It strips the message to \<open>a\<close>, opens the timeout and
  runs the three stages.
\<close>

theorem padded_message_counterexample:
  "length (CHR ''a'' # replicate 4000 (CHR '' '')) = 4001 \<and>
   on_message_activity demo_library (settings_of 5 True) answering_kernel
       (Some (CHR ''a'' # replicate 4000 (CHR '' ''))) =
     [Timeout 30, AnalyzeIntentStage ''a'',
      ExecuteAgentsStage [email_intent, calendar_intent, knowledge_intent],
      SynthesizeStage ''a'' [email_response, calendar_response, knowledge_response],
      SendActivity ''Here is your summary.'']"
proof -
  have "truthy (Some (CHR ''a'' # replicate 4000 (CHR '' ''))) =
      Some (CHR ''a'' # replicate 4000 (CHR '' ''))"
    by (simp add: truthy_def)
  then show ?thesis
    unfolding on_message_activity_def
    by (simp add: strip_padded MAX_MESSAGE_LENGTH_def process_three timeout_settings_of Let_def)
qed

text \<open>A turn that an exception ends: after the events of the stages reached, the one
  reply is the timeout text for a \<^verbatim>\<open>TimeoutError\<close> and the generic text otherwise.\<close>

lemma abort_messages:
  assumes "truthy text = Some t" and "strip t \<noteq> []" and "length (strip t) \<le> 4000"
    and "process_message lib settings k (strip t) = (events, Some ex)"
  shows "on_message_activity lib settings k text =
     Timeout (timeout_seconds settings) # events @
       [SendActivity (if isinstance ex TimeoutError
          then ''The request timed out. Please try a simpler query or try again later.''
          else ''Sorry, an error occurred processing your request. Please try again.'')]"
  using assms by (simp add: on_message_activity_def MAX_MESSAGE_LENGTH_def Let_def)

section \<open>Classification\<close>

lemma extract_json_empty_array: "extract_json ''[]'' = ''[]''"
  by (simp add: extract_json_def strip_def lstrip_def rstrip_def is_space_def)

lemma extract_json_reply_mixed: "extract_json reply_mixed = reply_mixed"
  by (simp add: extract_json_def reply_mixed_def strip_def lstrip_def rstrip_def is_space_def)

text \<open>What holds of \<open>_analyze_intent\<close> on every input: it returns; it returns the
  fallback when the kernel call raises, when the reply cannot be decoded, and when any
  item of a decoded list is rejected by \<^verbatim>\<open>Intent(**item)\<close>; and it returns the empty
  list when the reply decodes to the empty list.\<close>

lemma analyze_intent_returns: "\<exists>intents. analyze_intent loads k q = Inr intents"
  by (simp add: analyze_intent_def split: sum.splits)

lemma analyze_intent_service_raises:
  "AnalyzeIntent k q = Inl e \<Longrightarrow> analyze_intent loads k q = Inr [general_knowledge_fallback q]"
  by (simp add: analyze_intent_def analyze_intent_try_def)

lemma analyze_intent_undecodable:
  "AnalyzeIntent k q = Inr result \<Longrightarrow> loads (str_or result ''[]'') = None \<Longrightarrow>
   analyze_intent loads k q = Inr [general_knowledge_fallback q]"
  by (simp add: analyze_intent_def analyze_intent_try_def)

lemma analyze_intent_empty_list:
  "AnalyzeIntent k q = Inr result \<Longrightarrow> loads (str_or result ''[]'') = Some (JList []) \<Longrightarrow>
   analyze_intent loads k q = Inr []"
  by (simp add: analyze_intent_def analyze_intent_try_def iterate_def)

lemma comprehension_raises:
  "x \<in> set xs \<Longrightarrow> f x = Inl e \<Longrightarrow> \<exists>e'. comprehension f xs = Inl e'"
  by (induction xs) (auto split: sum.splits)

lemma analyze_intent_invalid_item:
  assumes "AnalyzeIntent k q = Inr result" and "loads (str_or result ''[]'') = Some (JList items)"
    and "item \<in> set items" and "Intent_kwargs item = Inl e"
  shows "analyze_intent loads k q = Inr [general_knowledge_fallback q]"
proof -
  obtain e' where "comprehension Intent_kwargs items = Inl e'"
    using comprehension_raises [of item items Intent_kwargs e] assms(3,4) by blast
  then show ?thesis
    using assms(1,2) by (simp add: analyze_intent_def analyze_intent_try_def iterate_def)
qed

text \<open>What holds of \<open>parse_intent_response\<close>: on a decoded list of JSON objects it
  returns the items that pass \<open>parse_item\<close>, in order, or the fallback when none does;
  an item that is not an object makes it raise \<^verbatim>\<open>TypeError\<close>.\<close>

lemma parse_item_dict_error:
  "parse_item (JDict kv) = Inl e \<Longrightarrow> isinstance e KeyError \<or> isinstance e ValueError"
  by (auto simp: parse_item_def subscript_def dict_get_def IntentType_call_def Intent_init_def
      isinstance_def split: option.splits sum.splits json.splits)

lemma parse_loop_dicts:
  assumes "list_all (\<lambda>item. \<exists>kv. item = JDict kv) items"
  shows "parse_loop items intents =
     Inr (intents @ List.map_filter
            (\<lambda>item. case parse_item item of Inr i \<Rightarrow> Some i | Inl e \<Rightarrow> None) items)"
  using assms
proof (induction items arbitrary: intents)
  case Nil
  then show ?case by (simp add: List.map_filter_simps)
next
  case (Cons item items)
  then obtain kv where kv: "item = JDict kv" by auto
  show ?case
  proof (cases "parse_item item")
    case (Inl e)
    then have "isinstance e KeyError \<or> isinstance e ValueError"
      using parse_item_dict_error kv by blast
    with Inl Cons show ?thesis by (simp add: List.map_filter_simps)
  next
    case (Inr i)
    with Cons show ?thesis by (simp add: List.map_filter_simps)
  qed
qed

lemma parse_intent_response_dicts:
  assumes "loads json_response = Some (JList items)"
    and "list_all (\<lambda>item. \<exists>kv. item = JDict kv) items"
  shows "parse_intent_response loads json_response q =
     Inr (let valid = List.map_filter
                (\<lambda>item. case parse_item item of Inr i \<Rightarrow> Some i | Inl e \<Rightarrow> None) items
          in if valid = [] then [general_knowledge_fallback q] else valid)"
  using assms(1) parse_loop_dicts [OF assms(2), of "[]"]
  by (cases items) (simp_all add: parse_intent_response_def Let_def List.map_filter_simps)

lemma parse_intent_response_not_a_dict:
  "loads json_response = Some (JList [JInt 5]) \<Longrightarrow>
   \<exists>m. parse_intent_response loads json_response q = Inl (Exn TypeError m)"
  by (simp add: parse_intent_response_def parse_item_def subscript_def isinstance_def)

text \<open>
  C1 at the input where the code departs from it. The completion service returns no
  result for the query \<open>hello\<close>: the plugin function \<open>AnalyzeIntent\<close> returns the text
  \<open>[]\<close>, and \<open>_analyze_intent\<close> returns the empty list of intents, not the
  general-knowledge fallback. \<open>parse_intent_response\<close>, which the orchestrator does not
  call, returns the fallback for the same text.
\<close>

theorem analyze_intent_empty_reply:
  "plugin_analyze_intent (invoke_prompt demo_library) ''hello'' = Inr ''[]'' \<and>
   analyze_intent (json_loads demo_library)
     (setup_plugins demo_library (chat_failure (Exn OtherError ''unused''))) ''hello'' = Inr [] \<and>
   parse_intent_response (json_loads demo_library) ''[]'' ''hello'' =
     Inr [general_knowledge_fallback ''hello'']"
proof -
  have p: "plugin_analyze_intent (invoke_prompt demo_library) q = Inr ''[]''" for q
    by (simp add: plugin_analyze_intent_def demo_library_def str_or_def extract_json_empty_array)
  have l: "json_loads demo_library ''[]'' = Some (JList [])"
    by (simp add: demo_library_def demo_loads_def)
  have a: "AnalyzeIntent (setup_plugins demo_library c) q = Inr (Some ''[]'')" for c q
    by (simp add: setup_plugins_def kernel_invoke_def pass_argument_def p)
  show ?thesis
    by (simp add: p analyze_intent_def analyze_intent_try_def a str_or_def l iterate_def
        parse_intent_response_def)
qed

text \<open>
  C5 at the input where the code departs from it. The classifier's reply is a JSON
  list of one valid item (\<open>M365Email\<close>) and one item whose type is outside the
  enumeration: \<open>_analyze_intent\<close> returns the single general-knowledge fallback for the
  whole query, while \<open>parse_intent_response\<close> drops the invalid item and returns the
  valid one.
\<close>

theorem analyze_intent_mixed_reply:
  "plugin_analyze_intent (invoke_prompt mixed_library) ''mail and more'' = Inr reply_mixed \<and>
   analyze_intent (json_loads mixed_library)
     (setup_plugins mixed_library (chat_failure (Exn OtherError ''unused''))) ''mail and more'' =
     Inr [general_knowledge_fallback ''mail and more''] \<and>
   parse_intent_response (json_loads mixed_library) reply_mixed ''mail and more'' =
     Inr [email_intent]"
proof -
  have p: "plugin_analyze_intent (invoke_prompt mixed_library) q = Inr reply_mixed" for q
    by (simp add: plugin_analyze_intent_def mixed_library_def demo_library_def str_or_def
        extract_json_reply_mixed)
  have l: "json_loads mixed_library reply_mixed =
      Some (JList [JDict [(''type'', JStr ''M365Email''), (''query'', JStr ''unread mail'')],
                   JDict [(''type'', JStr ''Bogus''), (''query'', JStr ''x'')]])"
    by (simp add: mixed_library_def demo_library_def demo_loads_def reply_mixed_def reply_three_def)
  have a: "AnalyzeIntent (setup_plugins mixed_library c) q = Inr (Some reply_mixed)" for c q
    by (simp add: setup_plugins_def kernel_invoke_def pass_argument_def p)
  have 1: "analyze_intent (json_loads mixed_library) (setup_plugins mixed_library c) q =
     Inr [general_knowledge_fallback q]" for c q
    by (simp add: analyze_intent_def analyze_intent_try_def a str_or_def l iterate_def
        Intent_kwargs_def Intent_init_def IntentType_call_def)
  have 2: "parse_intent_response (json_loads mixed_library) reply_mixed q = Inr [email_intent]" for q
    by (simp add: parse_intent_response_def l parse_item_def subscript_def dict_get_def
        IntentType_call_def Intent_init_def isinstance_def email_intent_def)
  show ?thesis by (simp add: p 1 2)
qed

section \<open>The general-knowledge branch\<close>



section \<open>The M365 branch and the connector's errors\<close>

text \<open>When the outer \<^verbatim>\<open>try\<close> block of \<^verbatim>\<open>_call_copilot_chat_api\<close> raises: any error of
  the client's creation or of the creation of the conversation, and any error of the
  chat call that is not an \<^verbatim>\<open>AttributeError\<close>.\<close>

lemma send_chat_message_raises:
  "send_chat_message c cid q = Inl ex \<longleftrightarrow>
     post_chat c cid q = Inl ex \<and> \<not> isinstance ex AttributeError"
  by (auto simp: send_chat_message_def split: sum.splits chat_response.splits option.splits if_splits)

lemma create_copilot_client_raises:
  "create_copilot_client c = Inl ex \<longleftrightarrow>
     exchange_token c = Inl ex \<or>
     (\<exists>token. exchange_token c = Inr token \<and> truthy token = None \<and>
        ex = Exn RuntimeError ''Access token not available. Ensure authentication is configured.'')"
  by (auto simp: create_copilot_client_def split: sum.splits option.splits)

lemma create_copilot_client_returns:
  "create_copilot_client c = Inr u \<longleftrightarrow>
     (\<exists>token t. exchange_token c = Inr token \<and> truthy token = Some t)"
  by (auto simp: create_copilot_client_def split: sum.splits option.splits)

lemma call_copilot_chat_api_try_raises:
  "snd (call_copilot_chat_api_try c q) = Inl ex \<longleftrightarrow>
     create_copilot_client c = Inl ex \<or>
     (create_copilot_client c = Inr () \<and> truthy (conversation_id c) = None \<and>
        (post_conversation c = Inl ex \<or>
         (\<exists>conversation. post_conversation c = Inr conversation \<and> truthy conversation = None \<and>
            ex = Exn RuntimeError ''Failed to create conversation - no ID returned'') \<or>
         (\<exists>conversation cid. post_conversation c = Inr conversation \<and>
            truthy conversation = Some cid \<and> post_chat c cid q = Inl ex \<and>
            \<not> isinstance ex AttributeError))) \<or>
     (\<exists>cid. create_copilot_client c = Inr () \<and> truthy (conversation_id c) = Some cid \<and>
        post_chat c cid q = Inl ex \<and> \<not> isinstance ex AttributeError)"
  by (auto simp: call_copilot_chat_api_try_def send_chat_message_raises
      split: sum.splits option.splits)

lemma m365_try:
  assumes "type intent = Member t" and "t \<noteq> GENERAL_KNOWLEDGE"
  shows "execute_agent_for_intent_try (setup_plugins lib c) intent =
     (case kernel_invoke lib (query_m365 c) (query intent) of
        Inl e \<Rightarrow> Inl e
      | Inr result \<Rightarrow>
          Inr \<lparr>agent = ''m365_copilot'', intent_type = Member t,
               content = str_or result ''No response received.'',
               success = True, error = None, metadata = []\<rparr>)"
  using assms
  by (cases t) (auto simp: execute_agent_for_intent_try_def execute_m365_plugin_def setup_plugins_def)

lemma matched_response:
  assumes "type intent = Member t" and "t \<noteq> GENERAL_KNOWLEDGE"
    and "pass_argument lib (query intent) = Inr q"
    and "snd (call_copilot_chat_api_try c q) = Inl ex"
    and "call_copilot_chat_api_except ex = Inr (Str reply)"
  shows "execute_agent_for_intent (setup_plugins lib c) intent =
     Inr \<lparr>agent = ''m365_copilot'', intent_type = Member t, content = reply,
          success = True, error = None, metadata = []\<rparr>"
proof -
  obtain cid where "call_copilot_chat_api_try c q = (cid, Inl ex)"
    using assms(4) by (cases "call_copilot_chat_api_try c q") simp
  then have "query_m365 c q = Inr reply"
    using assms(5) by (simp add: query_m365_def call_copilot_chat_api_def str_of_def)
  then have "kernel_invoke lib (query_m365 c) (query intent) = Inr (Some reply)"
    using assms(3) by (simp add: kernel_invoke_def)
  then show ?thesis
    by (simp add: execute_agent_for_intent_def m365_try [OF assms(1,2)] str_or_def)
qed

lemma unmatched_response:
  assumes "type intent = Member t" and "t \<noteq> GENERAL_KNOWLEDGE"
    and "pass_argument lib (query intent) = Inr q"
    and "snd (call_copilot_chat_api_try c q) = Inl ex"
    and "call_copilot_chat_api_except ex = Inl ex"
  shows "execute_agent_for_intent (setup_plugins lib c) intent =
     Inr \<lparr>agent = enum_value t, intent_type = Member t,
          content = ''Error: '' @ message (reraise lib ex),
          success = False, error = Some (message (reraise lib ex)), metadata = []\<rparr>"
proof -
  obtain cid where "call_copilot_chat_api_try c q = (cid, Inl ex)"
    using assms(4) by (cases "call_copilot_chat_api_try c q") simp
  then have "query_m365 c q = Inl ex"
    using assms(5) by (simp add: query_m365_def call_copilot_chat_api_def)
  then have "kernel_invoke lib (query_m365 c) (query intent) = Inl (reraise lib ex)"
    using assms(3) by (simp add: kernel_invoke_def)
  then show ?thesis
    using assms(1)
    by (simp add: execute_agent_for_intent_def m365_try [OF assms(1,2)]
        execute_agent_for_intent_except_def type_dot_value_def)
qed

text \<open>
  C10, as the code has it. Take an M365 intent whose query reaches the plugin, and let
  the outer \<^verbatim>\<open>try\<close> block of \<^verbatim>\<open>_call_copilot_chat_api\<close> raise \<open>ex\<close> (see
  \<open>call_copilot_chat_api_try_raises\<close>: any connector error but an \<^verbatim>\<open>AttributeError\<close> of
  the chat call). Per-intent execution returns a response. With \<open>m\<close> the lower-cased
  message of \<open>ex\<close>: when \<open>m\<close> contains \<open>401\<close> or \<open>unauthorized\<close> the response has
  \<open>success = True\<close> and the session-expired text; else when it contains \<open>403\<close> or
  \<open>forbidden\<close>, the missing-license text; else when it contains \<open>404\<close> or \<open>not found\<close>,
  the not-available text; else when it contains \<open>500\<close> or \<open>server error\<close>, the
  service-error text; and when it contains none of them the error is raised again and
  the response is the executor's failure: \<open>success = False\<close>, content \<open>Error: \<close> followed
  by the message of the exception that \<^verbatim>\<open>kernel.invoke\<close> raised, and that message as
  error.
\<close>

theorem copilot_error_mapping:
  assumes "type intent = Member t" and "t \<noteq> GENERAL_KNOWLEDGE"
    and "pass_argument lib (query intent) = Inr q"
    and "snd (call_copilot_chat_api_try c q) = Inl ex"
  shows "\<exists>response. execute_agent_for_intent (setup_plugins lib c) intent = Inr response \<and>
     (let m = lower (message ex);
          m401 = (contains ''401'' m \<or> contains ''unauthorized'' m);
          m403 = (contains ''403'' m \<or> contains ''forbidden'' m);
          m404 = (contains ''404'' m \<or> contains ''not found'' m);
          m500 = (contains ''500'' m \<or> contains ''server error'' m)
      in (m401 \<longrightarrow> success response \<and>
            content response = ''Your session has expired. Please log in again.'') \<and>
         (\<not> m401 \<and> m403 \<longrightarrow> success response \<and>
            content response = ''You don't have access to Microsoft 365 Copilot. Please contact your administrator to verify your license.'') \<and>
         (\<not> m401 \<and> \<not> m403 \<and> m404 \<longrightarrow> success response \<and>
            content response = ''The Copilot service is not available. Please try again later.'') \<and>
         (\<not> m401 \<and> \<not> m403 \<and> \<not> m404 \<and> m500 \<longrightarrow> success response \<and>
            content response = ''The Copilot service encountered an error. Please try again later.'') \<and>
         (\<not> m401 \<and> \<not> m403 \<and> \<not> m404 \<and> \<not> m500 \<longrightarrow> \<not> success response \<and>
            content response = ''Error: '' @ message (reraise lib ex) \<and>
            error response = Some (message (reraise lib ex))))"
proof (cases "call_copilot_chat_api_except ex")
  case (Inl e)
  then have e: "call_copilot_chat_api_except ex = Inl ex"
    by (auto simp: call_copilot_chat_api_except_def Let_def split: if_splits)
  from Inl have "\<not> (contains ''401'' (lower (message ex)) \<or> contains ''unauthorized'' (lower (message ex)))"
    "\<not> (contains ''403'' (lower (message ex)) \<or> contains ''forbidden'' (lower (message ex)))"
    "\<not> (contains ''404'' (lower (message ex)) \<or> contains ''not found'' (lower (message ex)))"
    "\<not> (contains ''500'' (lower (message ex)) \<or> contains ''server error'' (lower (message ex)))"
    by (auto simp: call_copilot_chat_api_except_def Let_def split: if_splits)
  then show ?thesis
    using unmatched_response [OF assms e] by (simp add: Let_def)
next
  case (Inr v)
  then obtain reply where r: "call_copilot_chat_api_except ex = Inr (Str reply)"
    by (auto simp: call_copilot_chat_api_except_def Let_def split: if_splits)
  then have "(let m = lower (message ex);
          m401 = (contains ''401'' m \<or> contains ''unauthorized'' m);
          m403 = (contains ''403'' m \<or> contains ''forbidden'' m);
          m404 = (contains ''404'' m \<or> contains ''not found'' m);
          m500 = (contains ''500'' m \<or> contains ''server error'' m)
      in (m401 \<longrightarrow> reply = ''Your session has expired. Please log in again.'') \<and>
         (\<not> m401 \<and> m403 \<longrightarrow>
            reply = ''You don't have access to Microsoft 365 Copilot. Please contact your administrator to verify your license.'') \<and>
         (\<not> m401 \<and> \<not> m403 \<and> m404 \<longrightarrow>
            reply = ''The Copilot service is not available. Please try again later.'') \<and>
         (\<not> m401 \<and> \<not> m403 \<and> \<not> m404 \<and> m500 \<longrightarrow>
            reply = ''The Copilot service encountered an error. Please try again later.'') \<and>
         (m401 \<or> m403 \<or> m404 \<or> m500))"
    unfolding call_copilot_chat_api_except_def Let_def
    by (auto split: if_splits)
  then show ?thesis
    using matched_response [OF assms r] by (auto simp: Let_def)
qed

lemma chat_failure_try:
  "\<not> isinstance e AttributeError \<Longrightarrow>
   call_copilot_chat_api_try (chat_failure e) q = (Some ''19:conversation'', Inl e)"
  by (simp add: call_copilot_chat_api_try_def create_copilot_client_def chat_failure_def
      truthy_def send_chat_message_def)

lemma chat_failure_attribute:
  "isinstance e AttributeError \<Longrightarrow>
   call_copilot_chat_api (chat_failure e) q = (Some ''19:conversation'', Inr Coroutine)"
  by (simp add: call_copilot_chat_api_def call_copilot_chat_api_try_def create_copilot_client_def
      chat_failure_def truthy_def send_chat_message_def)

lemma email_intent_fields:
  "type email_intent = Member M365_EMAIL" "M365_EMAIL \<noteq> GENERAL_KNOWLEDGE"
  "pass_argument lib (query email_intent) = Inr ''unread mail''"
  by (simp_all add: email_intent_def pass_argument_def)

lemma lower_401: "lower ''HTTP 401 Unauthorized'' = ''http 401 unauthorized''"
  by (simp add: lower_def lower_char_def)

lemma lower_reset: "lower ''connection reset'' = ''connection reset''"
  by (simp add: lower_def lower_char_def)

theorem copilot_error_mapping_witness:
  "execute_agent_for_intent
     (setup_plugins demo_library (chat_failure (Exn OtherError ''HTTP 401 Unauthorized''))) email_intent =
     Inr \<lparr>agent = ''m365_copilot'', intent_type = Member M365_EMAIL,
          content = ''Your session has expired. Please log in again.'',
          success = True, error = None, metadata = []\<rparr> \<and>
   execute_agent_for_intent
     (setup_plugins demo_library (chat_failure (Exn OtherError ''connection reset''))) email_intent =
     Inr \<lparr>agent = ''M365Email'', intent_type = Member M365_EMAIL,
          content = ''Error: connection reset'',
          success = False, error = Some ''connection reset'', metadata = []\<rparr>"
proof -
  have t1: "snd (call_copilot_chat_api_try (chat_failure (Exn OtherError ''HTTP 401 Unauthorized''))
      ''unread mail'') = Inl (Exn OtherError ''HTTP 401 Unauthorized'')"
    by (simp add: chat_failure_try isinstance_def)
  have t2: "snd (call_copilot_chat_api_try (chat_failure (Exn OtherError ''connection reset''))
      ''unread mail'') = Inl (Exn OtherError ''connection reset'')"
    by (simp add: chat_failure_try isinstance_def)
  have e1: "call_copilot_chat_api_except (Exn OtherError ''HTTP 401 Unauthorized'') =
      Inr (Str ''Your session has expired. Please log in again.'')"
    by (simp add: call_copilot_chat_api_except_def lower_401)
  have e2: "call_copilot_chat_api_except (Exn OtherError ''connection reset'') =
      Inl (Exn OtherError ''connection reset'')"
    by (simp add: call_copilot_chat_api_except_def lower_reset)
  have r: "reraise demo_library = (\<lambda>e. e)" by (simp add: demo_library_def)
  show ?thesis
    using copilot_error_mapping [OF email_intent_fields t1, of demo_library]
      copilot_error_mapping [OF email_intent_fields t2, of demo_library]
      matched_response [OF email_intent_fields t1 e1, of demo_library]
      unmatched_response [OF email_intent_fields t2 e2, of demo_library]
    by (simp add: r)
qed

text \<open>
  C10 as stated fails: the chat call raises an \<^verbatim>\<open>AttributeError\<close> whose message
  contains \<open>401\<close>. The inner handler takes it and returns the coroutine of
  \<^verbatim>\<open>_get_fallback_response\<close> without awaiting it, so the response has
  \<open>success = True\<close> and the text of that object as content, not the session-expired
  message.
\<close>

theorem attribute_error_counterexample:
  "post_chat (chat_failure (Exn AttributeError ''HTTP 401 Unauthorized'')) ''19:conversation'' ''unread mail''
     = Inl (Exn AttributeError ''HTTP 401 Unauthorized'') \<and>
   contains ''401'' (lower (message (Exn AttributeError ''HTTP 401 Unauthorized''))) \<and>
   execute_agent_for_intent
     (setup_plugins demo_library (chat_failure (Exn AttributeError ''HTTP 401 Unauthorized''))) email_intent =
     Inr \<lparr>agent = ''m365_copilot'', intent_type = Member M365_EMAIL,
          content = ''<coroutine object M365CopilotPlugin._get_fallback_response at 0x7f3a5c1d2e40>'',
          success = True, error = None, metadata = []\<rparr>"
proof -
  have "query_m365 (chat_failure (Exn AttributeError ''HTTP 401 Unauthorized'')) ''unread mail''
      = Inr ''<coroutine object M365CopilotPlugin._get_fallback_response at 0x7f3a5c1d2e40>''"
    by (simp add: query_m365_def chat_failure_attribute isinstance_def str_of_def)
      (simp add: chat_failure_def)
  then have "kernel_invoke demo_library
      (query_m365 (chat_failure (Exn AttributeError ''HTTP 401 Unauthorized''))) (query email_intent)
      = Inr (Some ''<coroutine object M365CopilotPlugin._get_fallback_response at 0x7f3a5c1d2e40>'')"
    by (simp add: kernel_invoke_def email_intent_fields)
  then have "execute_agent_for_intent
     (setup_plugins demo_library (chat_failure (Exn AttributeError ''HTTP 401 Unauthorized''))) email_intent =
     Inr \<lparr>agent = ''m365_copilot'', intent_type = Member M365_EMAIL,
          content = ''<coroutine object M365CopilotPlugin._get_fallback_response at 0x7f3a5c1d2e40>'',
          success = True, error = None, metadata = []\<rparr>"
    by (simp add: execute_agent_for_intent_def m365_try [OF email_intent_fields(1,2)] str_or_def)
  moreover have "contains ''401'' (lower (message (Exn AttributeError ''HTTP 401 Unauthorized'')))"
    by (simp add: lower_401)
  moreover have "post_chat (chat_failure (Exn AttributeError ''HTTP 401 Unauthorized''))
     ''19:conversation'' ''unread mail'' = Inl (Exn AttributeError ''HTTP 401 Unauthorized'')"
    by (simp add: chat_failure_def)
  ultimately show ?thesis by simp
qed

section \<open>Failed responses\<close>

lemma try_returns_failure:
  assumes "execute_agent_for_intent_try k intent = Inr r" and "\<not> success r"
  shows "(\<forall>m. type intent \<noteq> Member m) \<and>
         content r = ''I'm not sure how to handle that request.'' \<and> error r = None"
proof (cases "type intent")
  case (Member m)
  with assms show ?thesis
    unfolding execute_agent_for_intent_try_def execute_m365_plugin_def execute_general_knowledge_def
    by (cases m) (auto split: sum.splits)
next
  case (NonMember v)
  with assms show ?thesis
    by (auto simp: execute_agent_for_intent_try_def)
qed

text \<open>
  C8, as the code has it. A response of per-intent execution with \<open>success = False\<close>
  is of one of two shapes. Either the dispatched branch raised \<open>e\<close>: then its content is
  \<open>Error: \<close> followed by \<open>str(e)\<close> and its error is \<open>str(e)\<close>. Or the intent's type is not
  a member of the enumeration: then its content is the fixed text
  \<open>I'm not sure how to handle that request.\<close> and it has no error. The response the
  parallel branch builds for an exception \<open>e'\<close> has \<open>success = False\<close> and the content
  \<open>Error: \<close> followed by \<open>str(e')\<close>.
\<close>

theorem failed_response_shape:
  "(execute_agent_for_intent k intent = Inr response \<and> \<not> success response \<longrightarrow>
      (\<exists>e. execute_agent_for_intent_try k intent = Inl e \<and>
           content response = ''Error: '' @ message e \<and> error response = Some (message e)) \<or>
      ((\<forall>m. type intent \<noteq> Member m) \<and>
       content response = ''I'm not sure how to handle that request.'' \<and>
       error response = None)) \<and>
   (exception_response intent e' = Inr guarded \<longrightarrow>
      \<not> success guarded \<and> content guarded = ''Error: '' @ message e')"
proof -
  have 1: "(\<exists>e. execute_agent_for_intent_try k intent = Inl e \<and>
           content response = ''Error: '' @ message e \<and> error response = Some (message e)) \<or>
      ((\<forall>m. type intent \<noteq> Member m) \<and>
       content response = ''I'm not sure how to handle that request.'' \<and>
       error response = None)"
    if a: "execute_agent_for_intent k intent = Inr response" and b: "\<not> success response"
  proof (cases "execute_agent_for_intent_try k intent")
    case (Inl e)
    with a show ?thesis
      by (auto simp: execute_agent_for_intent_def execute_agent_for_intent_except_def
          split: sum.splits)
  next
    case (Inr r)
    with a have "r = response" by (simp add: execute_agent_for_intent_def)
    with Inr b show ?thesis using try_returns_failure by blast
  qed
  have 2: "\<not> success guarded \<and> content guarded = ''Error: '' @ message e'"
    if "exception_response intent e' = Inr guarded"
    using that by (auto simp: exception_response_def split: sum.splits)
  show ?thesis using 1 2 by blast
qed

theorem failed_response_shape_witness:
  "execute_agent_for_intent offline_kernel email_intent =
     Inr \<lparr>agent = ''M365Email'', intent_type = Member M365_EMAIL,
          content = ''Error: connection reset'', success = False,
          error = Some ''connection reset'', metadata = []\<rparr> \<and>
   execute_agent_for_intent offline_kernel odd_intent =
     Inr \<lparr>agent = ''unknown'', intent_type = NonMember (JInt 5),
          content = ''I'm not sure how to handle that request.'', success = False,
          error = None, metadata = []\<rparr> \<and>
   exception_response email_intent (Exn RuntimeError ''boom'') =
     Inr \<lparr>agent = ''M365Email'', intent_type = Member M365_EMAIL,
          content = ''Error: boom'', success = False, error = None, metadata = []\<rparr>"
  using failed_response_shape [of offline_kernel email_intent _ "Exn RuntimeError ''boom''"]
    failed_response_shape [of offline_kernel odd_intent _ "Exn RuntimeError ''boom''"]
  by (simp add: execute_agent_for_intent_def execute_agent_for_intent_except_def
      execute_agent_for_intent_try_def execute_m365_plugin_def offline_kernel_def
      email_intent_def odd_intent_def type_dot_value_def exception_response_def)

text \<open>
  C8 as stated fails on the unknown-intent-type branch: for an intent whose type is
  the number 5 the response has \<open>success = False\<close> and no error.
\<close>

theorem unknown_intent_counterexample:
  "execute_agent_for_intent offline_kernel odd_intent =
     Inr \<lparr>agent = ''unknown'', intent_type = NonMember (JInt 5),
          content = ''I'm not sure how to handle that request.'', success = False,
          error = None, metadata = []\<rparr>"
  by (simp add: execute_agent_for_intent_def execute_agent_for_intent_try_def odd_intent_def)

section \<open>Parallel and sequential execution\<close>

lemma run_sequential_map:
  assumes "\<And>i. i \<in> set intents \<Longrightarrow> exec i = Inr (f i)"
  shows "run_sequential exec intents = Inr (map f intents)"
  using assms by (induction intents) simp_all

lemma convert_exceptions_map:
  assumes "\<And>i. i \<in> set intents \<Longrightarrow> exec i = Inr (f i)"
  shows "convert_exceptions (zip intents (map exec intents)) = Inr (map f intents)"
  using assms by (induction intents) simp_all

lemma execute_agents_map:
  "\<exists>f. (\<forall>i. execute_agent_for_intent k i = Inr (f i)) \<and>
       (\<forall>in_parallel. execute_agents_with (execute_agent_for_intent k) in_parallel intents =
          Inr (map f intents))"
proof -
  obtain f where f: "\<And>i. execute_agent_for_intent k i = Inr (f i)"
    using execute_agent_for_intent_returns by metis
  have "execute_agents_with (execute_agent_for_intent k) in_parallel intents = Inr (map f intents)"
    for in_parallel
    unfolding execute_agents_with_def
    using run_sequential_map [of intents "execute_agent_for_intent k" f]
      convert_exceptions_map [of intents "execute_agent_for_intent k" f] f
    by simp
  with f show ?thesis by blast
qed

text \<open>The response of the guard for an intent whose type is a member.\<close>

lemma guard_total:
  assumes "list_all (\<lambda>i. \<exists>m. type i = Member m) intents"
  shows "\<exists>responses. convert_exceptions (zip intents (map exec intents)) = Inr responses \<and>
     length responses = length intents \<and>
     (\<forall>n < length intents.
        (\<forall>r. exec (intents ! n) = Inr r \<longrightarrow> responses ! n = r) \<and>
        (\<forall>e. exec (intents ! n) = Inl e \<longrightarrow>
           success (responses ! n) = False \<and>
           content (responses ! n) = ''Error: '' @ message e \<and>
           intent_type (responses ! n) = type (intents ! n)))"
  using assms
proof (induction intents)
  case Nil
  then show ?case by simp
next
  case (Cons a intents)
  then obtain m where m: "type a = Member m" by auto
  from Cons obtain responses where r:
    "convert_exceptions (zip intents (map exec intents)) = Inr responses"
    "length responses = length intents"
    "\<forall>n < length intents.
        (\<forall>r. exec (intents ! n) = Inr r \<longrightarrow> responses ! n = r) \<and>
        (\<forall>e. exec (intents ! n) = Inl e \<longrightarrow>
           success (responses ! n) = False \<and>
           content (responses ! n) = ''Error: '' @ message e \<and>
           intent_type (responses ! n) = type (intents ! n))"
    by auto
  obtain first where first:
    "(case exec a of Inl e \<Rightarrow> exception_response a e | Inr r \<Rightarrow> Inr r) = Inr first"
    "\<forall>r. exec a = Inr r \<longrightarrow> first = r"
    "\<forall>e. exec a = Inl e \<longrightarrow> success first = False \<and> content first = ''Error: '' @ message e \<and>
        intent_type first = type a"
    using m by (cases "exec a") (simp_all add: exception_response_def type_dot_value_def)
  have "convert_exceptions (zip (a # intents) (map exec (a # intents))) = Inr (first # responses)"
    using first(1) r(1) by simp
  moreover have "length (first # responses) = length (a # intents)"
    using r(2) by simp
  moreover have "(\<forall>r. exec ((a # intents) ! n) = Inr r \<longrightarrow> (first # responses) ! n = r) \<and>
        (\<forall>e. exec ((a # intents) ! n) = Inl e \<longrightarrow>
           success ((first # responses) ! n) = False \<and>
           content ((first # responses) ! n) = ''Error: '' @ message e \<and>
           intent_type ((first # responses) ! n) = type ((a # intents) ! n))"
    if "n < length (a # intents)" for n
    using that first(2,3) r(3) by (cases n) auto
  ultimately show ?case by blast
qed

text \<open>
  C3. For every kernel of deterministic responders and every sequence of intents, the
  parallel mode and the sequential mode of \<open>_execute_agents\<close> return the same result:
  a list with one response per intent, the response at index \<open>n\<close> being that of
  per-intent execution on the intent at index \<open>n\<close>. In the parallel mode, for any
  per-intent coroutine \<open>exec\<close> and intents whose types are members of the enumeration,
  a branch that raises \<open>e\<close> yields at its own index a response with
  \<open>success = False\<close> and content \<open>Error: \<close> followed by \<open>str(e)\<close>, and every branch that
  returns keeps its response at its index.
\<close>

theorem parallel_and_sequential_agree:
  "execute_agents (settings\<lparr>enable_parallel_execution := True\<rparr>) k intents =
   execute_agents (settings\<lparr>enable_parallel_execution := False\<rparr>) k intents \<and>
   (\<exists>responses. execute_agents settings k intents = Inr responses \<and>
      length responses = length intents \<and>
      (\<forall>n < length intents.
         execute_agent_for_intent k (intents ! n) = Inr (responses ! n))) \<and>
   (list_all (\<lambda>i. \<exists>m. type i = Member m) intents \<longrightarrow>
      (\<exists>responses. execute_agents_with exec True intents = Inr responses \<and>
         length responses = length intents \<and>
         (\<forall>n < length intents.
            (\<forall>r. exec (intents ! n) = Inr r \<longrightarrow> responses ! n = r) \<and>
            (\<forall>e. exec (intents ! n) = Inl e \<longrightarrow>
               success (responses ! n) = False \<and>
               content (responses ! n) = ''Error: '' @ message e \<and>
               intent_type (responses ! n) = type (intents ! n)))))"
proof -
  obtain f where f: "\<And>i. execute_agent_for_intent k i = Inr (f i)"
    "\<And>in_parallel. execute_agents_with (execute_agent_for_intent k) in_parallel intents =
          Inr (map f intents)"
    using execute_agents_map by blast
  have 1: "execute_agents (settings\<lparr>enable_parallel_execution := True\<rparr>) k intents =
    execute_agents (settings\<lparr>enable_parallel_execution := False\<rparr>) k intents"
    by (simp add: execute_agents_def f(2))
  have "execute_agents settings k intents = Inr (map f intents)"
    by (simp add: execute_agents_def f(2))
  then have 2: "\<exists>responses. execute_agents settings k intents = Inr responses \<and>
      length responses = length intents \<and>
      (\<forall>n < length intents.
         execute_agent_for_intent k (intents ! n) = Inr (responses ! n))"
    using f(1) by simp
  have 3: "\<exists>responses. execute_agents_with exec True intents = Inr responses \<and>
         length responses = length intents \<and>
         (\<forall>n < length intents.
            (\<forall>r. exec (intents ! n) = Inr r \<longrightarrow> responses ! n = r) \<and>
            (\<forall>e. exec (intents ! n) = Inl e \<longrightarrow>
               success (responses ! n) = False \<and>
               content (responses ! n) = ''Error: '' @ message e \<and>
               intent_type (responses ! n) = type (intents ! n)))"
    if "list_all (\<lambda>i. \<exists>m. type i = Member m) intents"
    using guard_total [OF that, of exec] by (simp add: execute_agents_with_def)
  show ?thesis using 1 2 3 by blast
qed

theorem parallel_and_sequential_agree_witness:
  "execute_agents (settings_of 5 True) offline_kernel [email_intent, knowledge_intent] =
     Inr [\<lparr>agent = ''M365Email'', intent_type = Member M365_EMAIL,
           content = ''Error: connection reset'', success = False,
           error = Some ''connection reset'', metadata = []\<rparr>, knowledge_response] \<and>
   execute_agents (settings_of 5 False) offline_kernel [email_intent, knowledge_intent] =
     Inr [\<lparr>agent = ''M365Email'', intent_type = Member M365_EMAIL,
           content = ''Error: connection reset'', success = False,
           error = Some ''connection reset'', metadata = []\<rparr>, knowledge_response] \<and>
   execute_agents_with raising_executor True [email_intent, knowledge_intent] =
     Inr [\<lparr>agent = ''M365Email'', intent_type = Member M365_EMAIL,
           content = ''Error: boom'', success = False, error = None, metadata = []\<rparr>,
          knowledge_response]"
proof -
  have e: "execute_agent_for_intent offline_kernel email_intent =
     Inr \<lparr>agent = ''M365Email'', intent_type = Member M365_EMAIL,
          content = ''Error: connection reset'', success = False,
          error = Some ''connection reset'', metadata = []\<rparr>"
    by (simp add: execute_agent_for_intent_def execute_agent_for_intent_except_def
      execute_agent_for_intent_try_def execute_m365_plugin_def offline_kernel_def
      email_intent_def type_dot_value_def)
  have g: "execute_agent_for_intent offline_kernel knowledge_intent = Inr knowledge_response"
    by (simp add: execute_agent_for_intent_def execute_agent_for_intent_try_def
      execute_general_knowledge_def offline_kernel_def knowledge_intent_def knowledge_response_def
      str_or_def)
  have r1: "raising_executor email_intent = Inl (Exn RuntimeError ''boom'')"
    by (simp add: raising_executor_def email_intent_def)
  have r2: "raising_executor knowledge_intent = Inr knowledge_response"
    using g by (simp add: raising_executor_def knowledge_intent_def)
  have x: "exception_response email_intent (Exn RuntimeError ''boom'') =
      Inr \<lparr>agent = ''M365Email'', intent_type = Member M365_EMAIL,
           content = ''Error: boom'', success = False, error = None, metadata = []\<rparr>"
    by (simp add: exception_response_def type_dot_value_def email_intent_def)
  have s: "settings_of 5 True = (settings_of 5 False)\<lparr>enable_parallel_execution := True\<rparr>"
    "settings_of 5 False = (settings_of 5 False)\<lparr>enable_parallel_execution := False\<rparr>"
    by (simp_all add: settings_of_def)
  have p: "enable_parallel_execution (settings_of 5 True)" "\<not> enable_parallel_execution (settings_of 5 False)"
    by (simp_all add: settings_of_def)
  show ?thesis
    using parallel_and_sequential_agree [of "settings_of 5 False" offline_kernel
        "[email_intent, knowledge_intent]" raising_executor]
    by (simp add: execute_agents_def execute_agents_with_def e g r1 r2 x p)
qed

end
